theory Spec2Isabelle
  imports Complex_Main
begin

section \<open>The values of the language\<close>

text \<open>
  \<^verbatim>\<open>cep-extension.js\<close> is one class, \<open>CEPExtension\<close>, with three groups of
  functions: the colour conversion (\<open>reverseColor\<close>, \<open>colorToHex\<close>, \<open>valueToHex\<close>),
  the settings store (\<open>setProp\<close>, \<open>getProp\<close>, the initial load in the constructor)
  and the script bridge (\<open>execute\<close>, \<open>unserialize\<close>).

  A Number is a finite value, \<open>NaN\<close> or one of the two infinities. Finite values are
  rationals (every double is one). Positive and negative zero are both \<open>Fin 0\<close>: the
  functions of this file do not tell them apart.

  A string is the list of the bytes of its UTF-8 encoding. The file compares strings,
  concatenates them and looks at single ASCII characters; it takes the length of a
  string of hexadecimal digits only.

  An object is the list of its own properties in the order of their creation, and its
  prototype. \<open>Obj\<close> is an object whose prototype is \<open>Object.prototype\<close>, as an
  object literal and an object of \<open>JSON.parse\<close> are; \<open>ObjP\<close> is an object whose
  prototype has been replaced, by another object or by \<open>null\<close>. These are the
  values that are stored, parsed and written. A value is the tree of what it holds: two
  objects with the same properties are the same value, and no object holds itself.

  Reading a property can give two things more, which are not among the values above:
  the object \<open>Object.prototype\<close> itself, and a function that it holds. A function
  that a caller passes to \<open>execute\<close> is an \<open>ArgFunction\<close> below.
\<close>

datatype jsnum = Fin rat | NaN | PosInf | NegInf

datatype jsval =
    Undefined
  | Null
  | Bool bool
  | Num jsnum
  | Str string
  | Arr "jsval list"
  | Obj "(string \<times> jsval) list"
  | ObjP "(string \<times> jsval) list" jsval

datatype property_value = Value jsval | ObjectPrototype | Builtin string

datatype error = Thrown string | SyntaxError | TypeError | RangeError

text \<open>
  What the file takes from the engine that runs it. The result of an arithmetic operation
  is the double nearest to the exact result: \<open>round_double\<close>, with \<open>None\<close> when the
  magnitude overflows. \<open>number_to_string\<close> is the decimal text of a finite Number.
  \<open>exotic_get receiver holder name\<close> is what reading the property \<open>name\<close> of
  \<open>receiver\<close> gives once the lookup has reached \<open>holder\<close>, a value that is not a
  plain object (an array, a string, a number, a boolean).
  \<open>array_set\<close> assigns to a property of an array, and \<open>exotic_set\<close> to a property
  that is not an own one, of an object with an array among its prototypes.
  \<open>escapes_lone_surrogates\<close> says whether \<open>JSON.stringify\<close> writes
  a surrogate that has no partner as an escape (engines since ES2019) or as it is.
  Every theorem below holds for every engine; none constrains these fields unless it
  says so.
\<close>

record engine =
  round_double :: "rat \<Rightarrow> rat option"
  number_to_string :: "rat \<Rightarrow> string"
  exotic_get :: "jsval \<Rightarrow> jsval \<Rightarrow> string \<Rightarrow> property_value"
  array_set :: "jsval list \<Rightarrow> string \<Rightarrow> jsval \<Rightarrow> error + jsval list"
  exotic_set :: "jsval \<Rightarrow> string \<Rightarrow> jsval \<Rightarrow> error + jsval"
  escapes_lone_surrogates :: bool

text \<open>The Number value of an exact result.\<close>

definition number_value :: "engine \<Rightarrow> rat \<Rightarrow> jsnum" where
  "number_value rt x =
     (case round_double rt x of
        Some y \<Rightarrow> Fin y
      | None \<Rightarrow> if 0 < x then PosInf else NegInf)"

text \<open>\<open>a + b\<close> and \<open>a - b\<close> on Numbers.\<close>

fun js_add :: "engine \<Rightarrow> jsnum \<Rightarrow> jsnum \<Rightarrow> jsnum" where
  "js_add rt NaN b = NaN"
| "js_add rt a NaN = NaN"
| "js_add rt PosInf NegInf = NaN"
| "js_add rt NegInf PosInf = NaN"
| "js_add rt PosInf b = PosInf"
| "js_add rt NegInf b = NegInf"
| "js_add rt a PosInf = PosInf"
| "js_add rt a NegInf = NegInf"
| "js_add rt (Fin x) (Fin y) = number_value rt (x + y)"

fun js_neg :: "jsnum \<Rightarrow> jsnum" where
  "js_neg (Fin x) = Fin (- x)"
| "js_neg NaN = NaN"
| "js_neg PosInf = NegInf"
| "js_neg NegInf = PosInf"

definition js_sub :: "engine \<Rightarrow> jsnum \<Rightarrow> jsnum \<Rightarrow> jsnum" where
  "js_sub rt a b = js_add rt a (js_neg b)"

text \<open>\<open>a < b\<close> and \<open>a > b\<close>: false as soon as one side is \<open>NaN\<close>.\<close>

fun js_lt :: "jsnum \<Rightarrow> jsnum \<Rightarrow> bool" where
  "js_lt NaN b = False"
| "js_lt a NaN = False"
| "js_lt PosInf b = False"
| "js_lt a NegInf = False"
| "js_lt NegInf b = True"
| "js_lt a PosInf = True"
| "js_lt (Fin x) (Fin y) = (x < y)"

definition js_gt :: "jsnum \<Rightarrow> jsnum \<Rightarrow> bool" where
  "js_gt a b = js_lt b a"

fun Math_abs :: "jsnum \<Rightarrow> jsnum" where
  "Math_abs (Fin x) = Fin \<bar>x\<bar>"
| "Math_abs NaN = NaN"
| "Math_abs PosInf = PosInf"
| "Math_abs NegInf = PosInf"

text \<open>\<open>Math.round\<close>: the nearest integer, a tie going up.\<close>

fun Math_round :: "jsnum \<Rightarrow> jsnum" where
  "Math_round (Fin x) = Fin (of_int \<lfloor>x + 1 / 2\<rfloor>)"
| "Math_round NaN = NaN"
| "Math_round PosInf = PosInf"
| "Math_round NegInf = NegInf"

text \<open>
  An optional Number argument: \<open>None\<close> is an argument left out (\<open>undefined\<close>).
  \<open>ToNumber(undefined)\<close> is \<open>NaN\<close>, so \<open>isNaN\<close> of a missing argument is true.
\<close>

definition ToNumber :: "jsnum option \<Rightarrow> jsnum" where
  "ToNumber d = (case d of None \<Rightarrow> NaN | Some n \<Rightarrow> n)"

definition isNaN :: "jsnum option \<Rightarrow> bool" where
  "isNaN d = (ToNumber d = NaN)"

text \<open>The text of a Number in a string concatenation.\<close>

fun ToString :: "engine \<Rightarrow> jsnum \<Rightarrow> string" where
  "ToString rt (Fin x) = number_to_string rt x"
| "ToString rt NaN = ''NaN''"
| "ToString rt PosInf = ''Infinity''"
| "ToString rt NegInf = ''-Infinity''"

text \<open>Truthiness, and \<open>a || b\<close>.\<close>

fun truthy :: "jsval \<Rightarrow> bool" where
  "truthy Undefined = False"
| "truthy Null = False"
| "truthy (Bool b) = b"
| "truthy (Num n) = (n \<noteq> Fin 0 \<and> n \<noteq> NaN)"
| "truthy (Str s) = (s \<noteq> [])"
| "truthy (Arr xs) = True"
| "truthy (Obj kvs) = True"
| "truthy (ObjP kvs p) = True"

definition js_or :: "jsval \<Rightarrow> jsval \<Rightarrow> jsval" where
  "js_or a b = (if truthy a then a else b)"

text \<open>
  Giving a value to an own property: the value of a property that is there is replaced
  in place, a new property is appended.
\<close>

fun obj_put :: "(string \<times> jsval) list \<Rightarrow> string \<Rightarrow> jsval \<Rightarrow> (string \<times> jsval) list" where
  "obj_put [] k v = [(k, v)]"
| "obj_put ((k', v') # kvs) k v =
     (if k' = k then (k, v) # kvs else (k', v') # obj_put kvs k v)"

section \<open>Colour conversion\<close>

text \<open>
  \<open>n.toString(16)\<close>. \<open>valueToHex\<close> calls it on a result of \<open>Math.round\<close> only,
  so on an integer, \<open>NaN\<close> or an infinity; the digits after the point of a Number that
  is not an integer are not produced here.
\<close>

definition hex_digit :: "nat \<Rightarrow> char" where
  "hex_digit n = ''0123456789abcdef'' ! (n mod 16)"

function radix16 :: "nat \<Rightarrow> string" where
  "radix16 n = (if n < 16 then [hex_digit n] else radix16 (n div 16) @ [hex_digit n])"
  by pat_completeness auto
termination
  by (relation "measure (\<lambda>n. n)") auto

declare radix16.simps [simp del]

fun toString16 :: "jsnum \<Rightarrow> string" where
  "toString16 (Fin x) =
     (if x < 0 then ''-'' @ radix16 (nat \<lfloor>- x\<rfloor>) else radix16 (nat \<lfloor>x\<rfloor>))"
| "toString16 NaN = ''NaN''"
| "toString16 PosInf = ''Infinity''"
| "toString16 NegInf = ''-Infinity''"

text \<open>
  \<^verbatim>\<open>
  var valueToHex = function(value, delta) {
      var computedValue = !isNaN(delta) ? value + delta : value;
      if (computedValue < 0) { computedValue = 0; }
      else if (computedValue > 255) { computedValue = 255; }
      computedValue = Math.round(computedValue).toString(16);
      return computedValue.length == 1 ? "0" + computedValue : computedValue;
  };
  \<close>
\<close>

definition valueToHex :: "engine \<Rightarrow> jsnum \<Rightarrow> jsnum option \<Rightarrow> string" where
  "valueToHex rt value delta =
     (let computedValue = (if \<not> isNaN delta then js_add rt value (ToNumber delta) else value);
          computedValue = (if js_lt computedValue (Fin 0) then Fin 0
                           else if js_gt computedValue (Fin 255) then Fin 255
                           else computedValue);
          computedValue = toString16 (Math_round computedValue)
      in if length computedValue = 1 then ''0'' @ computedValue else computedValue)"

record color =
  red :: jsnum
  green :: jsnum
  blue :: jsnum

text \<open>
  \<^verbatim>\<open>
  var colorToHex = function(color, delta) {
      return "#" + valueToHex(color.red, delta)
          + valueToHex(color.green, delta)
          + valueToHex(color.blue, delta);
  };
  \<close>
\<close>

definition colorToHex :: "engine \<Rightarrow> color \<Rightarrow> jsnum option \<Rightarrow> string" where
  "colorToHex rt c delta =
     ''#'' @ valueToHex rt (red c) delta
          @ valueToHex rt (green c) delta
          @ valueToHex rt (blue c) delta"

text \<open>
  \<^verbatim>\<open>
  var reverseColor = function(color, delta) {
      return colorToHex({
              "red" : Math.abs(255 - color.red),
              "green" : Math.abs(255 - color.green),
              "blue" : Math.abs(255 - color.blue)
          }, delta);
  };
  \<close>
  \<open>reversed\<close> is the object literal, \<open>reverseColor\<close> the function.
\<close>

definition reversed :: "engine \<Rightarrow> color \<Rightarrow> color" where
  "reversed rt c =
     \<lparr> red = Math_abs (js_sub rt (Fin 255) (red c)),
       green = Math_abs (js_sub rt (Fin 255) (green c)),
       blue = Math_abs (js_sub rt (Fin 255) (blue c)) \<rparr>"

definition reverseColor :: "engine \<Rightarrow> color \<Rightarrow> jsnum option \<Rightarrow> string" where
  "reverseColor rt c delta = colorToHex rt (reversed rt c) delta"

section \<open>\<open>JSON.parse\<close>\<close>

text \<open>
  \<open>JSON.parse\<close> belongs to the engine; \<open>unserialize\<close> depends on which texts it
  accepts, so it is written out here after the JSON grammar: a lexer from characters to
  tokens, then a pushdown automaton over the tokens. A text that the grammar rejects is
  the exception \<open>SyntaxError\<close>.
\<close>

datatype token =
    TLBrace | TRBrace | TLBrack | TRBrack | TColon | TComma
  | TStr string | TNum rat | TTrue | TFalse | TNull

definition is_ws :: "char \<Rightarrow> bool" where
  "is_ws c = (c = CHR 0x09 \<or> c = CHR 0x0A \<or> c = CHR 0x0D \<or> c = CHR '' '')"

definition is_digit :: "char \<Rightarrow> bool" where
  "is_digit c = (c \<in> set ''0123456789'')"

definition digit_val :: "char \<Rightarrow> nat" where
  "digit_val c = of_char c - 48"

definition hex_val :: "char \<Rightarrow> nat option" where
  "hex_val c =
     (if c \<in> set ''0123456789'' then Some (of_char c - 48)
      else if c \<in> set ''abcdef'' then Some (of_char c - 87)
      else if c \<in> set ''ABCDEF'' then Some (of_char c - 55)
      else None)"

text \<open>
  The characters of a string literal are bytes of the text or code units written
  \<open>\uXXXX\<close>. A code unit becomes the bytes of its UTF-8 encoding, a surrogate pair
  those of the code point it stands for.
\<close>

definition utf8 :: "nat \<Rightarrow> string" where
  "utf8 n =
     (if n < 0x80 then [char_of n]
      else if n < 0x800 then [char_of (0xC0 + n div 0x40), char_of (0x80 + n mod 0x40)]
      else if n < 0x10000 then
        [char_of (0xE0 + n div 0x1000), char_of (0x80 + n div 0x40 mod 0x40),
         char_of (0x80 + n mod 0x40)]
      else
        [char_of (0xF0 + n div 0x40000), char_of (0x80 + n div 0x1000 mod 0x40),
         char_of (0x80 + n div 0x40 mod 0x40), char_of (0x80 + n mod 0x40)])"

datatype strpart = Byte char | Unit nat

fun encode :: "strpart list \<Rightarrow> string" where
  "encode [] = []"
| "encode (Byte c # ps) = c # encode ps"
| "encode (Unit hi # Unit lo # ps) =
     (if 0xD800 \<le> hi \<and> hi < 0xDC00 \<and> 0xDC00 \<le> lo \<and> lo < 0xE000
      then utf8 (0x10000 + (hi - 0xD800) * 0x400 + (lo - 0xDC00)) @ encode ps
      else utf8 hi @ encode (Unit lo # ps))"
| "encode (Unit u # ps) = utf8 u @ encode ps"

definition simple_escape :: "char \<Rightarrow> char option" where
  "simple_escape e =
     (if e = CHR 0x22 then Some (CHR 0x22)
      else if e = CHR 0x5C then Some (CHR 0x5C)
      else if e = CHR ''/'' then Some (CHR ''/'')
      else if e = CHR ''b'' then Some (CHR 0x08)
      else if e = CHR ''f'' then Some (CHR 0x0C)
      else if e = CHR ''n'' then Some (CHR 0x0A)
      else if e = CHR ''r'' then Some (CHR 0x0D)
      else if e = CHR ''t'' then Some (CHR 0x09)
      else None)"

definition cons_part ::
  "strpart \<Rightarrow> (strpart list \<times> string) option \<Rightarrow> (strpart list \<times> string) option" where
  "cons_part p r = (case r of None \<Rightarrow> None | Some (ps, rest) \<Rightarrow> Some (p # ps, rest))"

text \<open>
  The rest of a string literal after its opening quote: its parts, and the text after the
  closing quote. No control character stands unescaped in a string.
\<close>

fun lex_string :: "string \<Rightarrow> (strpart list \<times> string) option" where
  "lex_string [] = None"
| "lex_string (c # cs) =
     (if c = CHR 0x22 then Some ([], cs)
      else if c = CHR 0x5C then
        (case cs of
           [] \<Rightarrow> None
         | e # cs' \<Rightarrow>
             if e = CHR ''u'' then
               (case cs' of
                  h1 # h2 # h3 # h4 # rest \<Rightarrow>
                    (case (hex_val h1, hex_val h2, hex_val h3, hex_val h4) of
                       (Some a, Some b, Some c, Some d) \<Rightarrow>
                         cons_part (Unit (((a * 16 + b) * 16 + c) * 16 + d)) (lex_string rest)
                     | _ \<Rightarrow> None)
                | _ \<Rightarrow> None)
             else
               (case simple_escape e of
                  None \<Rightarrow> None
                | Some ch \<Rightarrow> cons_part (Byte ch) (lex_string cs')))
      else if (of_char c :: nat) < 0x20 then None
      else cons_part (Byte c) (lex_string cs))"

text \<open>
  A number: an optional minus, \<open>0\<close> or digits that do not start with \<open>0\<close>, an
  optional fraction, an optional exponent. Its token is the exact value.
\<close>

definition nat_of_digits :: "string \<Rightarrow> nat" where
  "nat_of_digits ds = foldl (\<lambda>n d. 10 * n + digit_val d) 0 ds"

definition pow10 :: "int \<Rightarrow> rat" where
  "pow10 k = (if 0 \<le> k then 10 ^ nat k else 1 / 10 ^ nat (- k))"

definition lex_int :: "string \<Rightarrow> (string \<times> string) option" where
  "lex_int cs =
     (case cs of
        [] \<Rightarrow> None
      | c # r \<Rightarrow>
          if c = CHR ''0'' then Some ([c], r)
          else if is_digit c then Some (takeWhile is_digit cs, dropWhile is_digit cs)
          else None)"

definition lex_frac :: "string \<Rightarrow> (string \<times> string) option" where
  "lex_frac cs =
     (case cs of
        [] \<Rightarrow> Some ([], cs)
      | c # r \<Rightarrow>
          if c = CHR ''.'' then
            (if takeWhile is_digit r = [] then None
             else Some (takeWhile is_digit r, dropWhile is_digit r))
          else Some ([], cs))"

definition lex_sign :: "string \<Rightarrow> int \<times> string" where
  "lex_sign cs =
     (case cs of
        [] \<Rightarrow> (1, cs)
      | c # r \<Rightarrow> if c = CHR ''+'' then (1, r) else if c = CHR ''-'' then (- 1, r) else (1, cs))"

definition lex_exp :: "string \<Rightarrow> (int \<times> string) option" where
  "lex_exp cs =
     (case cs of
        [] \<Rightarrow> Some (0, cs)
      | c # r \<Rightarrow>
          if c = CHR ''e'' \<or> c = CHR ''E'' then
            (case lex_sign r of
               (sg, r') \<Rightarrow>
                 if takeWhile is_digit r' = [] then None
                 else Some (sg * int (nat_of_digits (takeWhile is_digit r')),
                            dropWhile is_digit r'))
          else Some (0, cs))"

definition lex_number :: "string \<Rightarrow> (rat \<times> string) option" where
  "lex_number cs =
     (case (case cs of c # r \<Rightarrow> if c = CHR ''-'' then (- 1, r) else (1, cs) | [] \<Rightarrow> (1, cs)) of
        (sg, cs1) \<Rightarrow>
          (case lex_int cs1 of
             None \<Rightarrow> None
           | Some (ip, cs2) \<Rightarrow>
               (case lex_frac cs2 of
                  None \<Rightarrow> None
                | Some (fp, cs3) \<Rightarrow>
                    (case lex_exp cs3 of
                       None \<Rightarrow> None
                     | Some (e, cs4) \<Rightarrow>
                         Some (sg * of_nat (nat_of_digits (ip @ fp)) * pow10 (e - int (length fp)),
                               cs4)))))"

lemma lex_string_length: "lex_string cs = Some (ps, rest) \<Longrightarrow> length rest < length cs"
proof (induction cs arbitrary: ps rest rule: lex_string.induct)
  case 1
  then show ?case by simp
next
  case (2 c cs)
  then show ?case
    by (auto simp: cons_part_def split: if_splits list.splits option.splits prod.splits)
       (fastforce+)?
qed

lemma lex_int_length: "lex_int cs = Some (ip, rest) \<Longrightarrow> length rest < length cs"
  by (auto simp: lex_int_def less_Suc_eq_le length_dropWhile_le split: list.splits if_splits)

lemma lex_frac_length: "lex_frac cs = Some (fp, rest) \<Longrightarrow> length rest \<le> length cs"
  by (auto simp: lex_frac_def le_SucI length_dropWhile_le split: list.splits if_splits)

lemma lex_sign_length: "lex_sign cs = (sg, rest) \<Longrightarrow> length rest \<le> length cs"
  by (auto simp: lex_sign_def split: list.splits if_splits)

lemma lex_exp_length: "lex_exp cs = Some (e, rest) \<Longrightarrow> length rest \<le> length cs"
proof -
  assume a: "lex_exp cs = Some (e, rest)"
  show ?thesis
  proof (cases cs)
    case Nil
    with a show ?thesis by (simp add: lex_exp_def)
  next
    case (Cons c r)
    obtain sg r' where s: "lex_sign r = (sg, r')" by (cases "lex_sign r")
    have "length (dropWhile is_digit r') \<le> length r"
      using lex_sign_length [OF s] length_dropWhile_le [of is_digit r'] by simp
    with a Cons s show ?thesis
      by (auto simp: lex_exp_def split: if_splits)
  qed
qed

lemma lex_number_length:
  assumes "lex_number cs = Some (x, rest)"
  shows "length rest < length cs"
proof -
  obtain sg cs1 where
    1: "(case cs of c # r \<Rightarrow> if c = CHR ''-'' then (- 1, r) else (1, cs) | [] \<Rightarrow> (1::rat, cs))
          = (sg, cs1)"
    by (cases "(case cs of c # r \<Rightarrow> if c = CHR ''-'' then (- 1, r) else (1, cs)
                | [] \<Rightarrow> (1::rat, cs))")
  then have l1: "length cs1 \<le> length cs" by (auto split: list.splits if_splits)
  from assms 1 obtain ip cs2 fp cs3 e where
    2: "lex_int cs1 = Some (ip, cs2)" and 3: "lex_frac cs2 = Some (fp, cs3)"
    and 4: "lex_exp cs3 = Some (e, rest)"
    by (auto simp: lex_number_def split: option.splits)
  from l1 lex_int_length [OF 2] lex_frac_length [OF 3] lex_exp_length [OF 4]
  show ?thesis by simp
qed

definition cons_tok :: "token \<Rightarrow> token list option \<Rightarrow> token list option" where
  "cons_tok t r = (case r of None \<Rightarrow> None | Some ts \<Rightarrow> Some (t # ts))"

function lex :: "string \<Rightarrow> token list option" where
  "lex [] = Some []"
| "lex (c # cs) =
     (if is_ws c then lex cs
      else if c = CHR ''{'' then cons_tok TLBrace (lex cs)
      else if c = CHR ''}'' then cons_tok TRBrace (lex cs)
      else if c = CHR ''['' then cons_tok TLBrack (lex cs)
      else if c = CHR '']'' then cons_tok TRBrack (lex cs)
      else if c = CHR '':'' then cons_tok TColon (lex cs)
      else if c = CHR '','' then cons_tok TComma (lex cs)
      else if c = CHR 0x22 then
        (case lex_string cs of
           None \<Rightarrow> None
         | Some (ps, rest) \<Rightarrow> cons_tok (TStr (encode ps)) (lex rest))
      else if c = CHR ''-'' \<or> is_digit c then
        (case lex_number (c # cs) of
           None \<Rightarrow> None
         | Some (x, rest) \<Rightarrow> cons_tok (TNum x) (lex rest))
      else if take 4 (c # cs) = ''true'' then cons_tok TTrue (lex (drop 4 (c # cs)))
      else if take 5 (c # cs) = ''false'' then cons_tok TFalse (lex (drop 5 (c # cs)))
      else if take 4 (c # cs) = ''null'' then cons_tok TNull (lex (drop 4 (c # cs)))
      else None)"
  by pat_completeness auto
termination
proof (relation "measure length")
  fix c cs x ps rest
  assume "lex_string cs = Some x" "(ps, rest) = x"
  then show "(rest, c # cs) \<in> measure length"
    using lex_string_length [of cs ps rest] by simp
next
  fix c :: char and cs x y rest
  assume "lex_number (c # cs) = Some x" "(y, rest) = x"
  then show "(rest, c # cs) \<in> measure length"
    using lex_number_length [of "c # cs" y rest] by simp
qed auto

text \<open>
  The automaton: what may come next, and the arrays and objects that are open. A member
  whose name is already in the object replaces the value of the earlier one.
\<close>

datatype frame = InArr "jsval list" | InObj "(string \<times> jsval) list" | Member string

datatype expect =
    ExpectValue
  | ExpectValueOrEnd
  | ExpectKeyOrEnd
  | ExpectKey
  | ExpectColon
  | ExpectCommaOrEnd
  | Done jsval

fun finish :: "jsval \<Rightarrow> frame list \<Rightarrow> (expect \<times> frame list) option" where
  "finish v [] = Some (Done v, [])"
| "finish v (InArr items # st) = Some (ExpectCommaOrEnd, InArr (items @ [v]) # st)"
| "finish v (Member k # InObj ms # st) = Some (ExpectCommaOrEnd, InObj (obj_put ms k v) # st)"
| "finish v st = None"

fun start_value :: "engine \<Rightarrow> token \<Rightarrow> frame list \<Rightarrow> (expect \<times> frame list) option" where
  "start_value rt TLBrack st = Some (ExpectValueOrEnd, InArr [] # st)"
| "start_value rt TLBrace st = Some (ExpectKeyOrEnd, InObj [] # st)"
| "start_value rt (TStr s) st = finish (Str s) st"
| "start_value rt (TNum x) st = finish (Num (number_value rt x)) st"
| "start_value rt TTrue st = finish (Bool True) st"
| "start_value rt TFalse st = finish (Bool False) st"
| "start_value rt TNull st = finish Null st"
| "start_value rt t st = None"

definition step :: "engine \<Rightarrow> expect \<times> frame list \<Rightarrow> token \<Rightarrow> (expect \<times> frame list) option" where
  "step rt s t =
     (case s of
        (ExpectValue, st) \<Rightarrow> start_value rt t st
      | (ExpectValueOrEnd, st) \<Rightarrow>
          (case (st, t) of
             (InArr items # st', TRBrack) \<Rightarrow> finish (Arr items) st'
           | _ \<Rightarrow> start_value rt t st)
      | (ExpectKeyOrEnd, st) \<Rightarrow>
          (case (st, t) of
             (InObj ms # st', TRBrace) \<Rightarrow> finish (Obj ms) st'
           | (_, TStr k) \<Rightarrow> Some (ExpectColon, Member k # st)
           | _ \<Rightarrow> None)
      | (ExpectKey, st) \<Rightarrow>
          (case t of TStr k \<Rightarrow> Some (ExpectColon, Member k # st) | _ \<Rightarrow> None)
      | (ExpectColon, st) \<Rightarrow>
          (case t of TColon \<Rightarrow> Some (ExpectValue, st) | _ \<Rightarrow> None)
      | (ExpectCommaOrEnd, st) \<Rightarrow>
          (case (st, t) of
             (InArr items # st', TComma) \<Rightarrow> Some (ExpectValue, st)
           | (InArr items # st', TRBrack) \<Rightarrow> finish (Arr items) st'
           | (InObj ms # st', TComma) \<Rightarrow> Some (ExpectKey, st)
           | (InObj ms # st', TRBrace) \<Rightarrow> finish (Obj ms) st'
           | _ \<Rightarrow> None)
      | (Done v, st) \<Rightarrow> None)"

fun steps ::
  "engine \<Rightarrow> expect \<times> frame list \<Rightarrow> token list \<Rightarrow> (expect \<times> frame list) option" where
  "steps rt s [] = Some s"
| "steps rt s (t # ts) = (case step rt s t of None \<Rightarrow> None | Some s' \<Rightarrow> steps rt s' ts)"

definition JSON_parse :: "engine \<Rightarrow> string \<Rightarrow> error + jsval" where
  "JSON_parse rt text =
     (case lex text of
        None \<Rightarrow> Inl SyntaxError
      | Some ts \<Rightarrow>
          (case steps rt (ExpectValue, []) ts of
             Some (Done v, []) \<Rightarrow> Inr v
           | _ \<Rightarrow> Inl SyntaxError))"

section \<open>\<open>JSON.stringify\<close>\<close>

text \<open>
  The properties of an object are written in the engine's order: the names that are array
  indices first, in numeric order, then the other names in the order of their creation.
  Only own properties are written, whatever the prototype is.
  A property whose value is \<open>undefined\<close> is left out; \<open>undefined\<close> in an array is
  written \<open>null\<close>, as are \<open>NaN\<close> and the infinities. \<open>JSON.stringify(undefined)\<close>
  is \<open>undefined\<close>: the result \<open>None\<close>.
\<close>

definition is_array_index :: "string \<Rightarrow> bool" where
  "is_array_index k =
     (k = ''0'' \<or>
      (k \<noteq> [] \<and> list_all is_digit k \<and> hd k \<noteq> CHR ''0''
         \<and> int (nat_of_digits k) < 4294967295))"

definition own_properties :: "(string \<times> 'a) list \<Rightarrow> (string \<times> 'a) list" where
  "own_properties kvs =
     sort_key (\<lambda>kv. nat_of_digits (fst kv)) (filter (\<lambda>kv. is_array_index (fst kv)) kvs)
       @ filter (\<lambda>kv. \<not> is_array_index (fst kv)) kvs"

definition escape_char :: "char \<Rightarrow> string" where
  "escape_char c =
     (if c = CHR 0x22 then [CHR 0x5C, CHR 0x22]
      else if c = CHR 0x5C then [CHR 0x5C, CHR 0x5C]
      else if c = CHR 0x08 then [CHR 0x5C, CHR ''b'']
      else if c = CHR 0x0C then [CHR 0x5C, CHR ''f'']
      else if c = CHR 0x0A then [CHR 0x5C, CHR ''n'']
      else if c = CHR 0x0D then [CHR 0x5C, CHR ''r'']
      else if c = CHR 0x09 then [CHR 0x5C, CHR ''t'']
      else if (of_char c :: nat) < 0x20 then
        [CHR 0x5C, CHR ''u'', CHR ''0'', CHR ''0'', hex_digit (of_char c div 16),
         hex_digit (of_char c)]
      else [c])"

text \<open>
  A surrogate with no partner is three bytes in a string, \<open>0xED\<close>, one of
  \<open>0xA0\<close> to \<open>0xBF\<close> and one of \<open>0x80\<close> to \<open>0xBF\<close>; its escape is
  \<open>\ud\<close> and three hexadecimal digits.
\<close>

fun escape_string :: "bool \<Rightarrow> string \<Rightarrow> string" where
  "escape_string esc [] = []"
| "escape_string esc (c # cs) =
     (case cs of
        b2 # b3 # rest \<Rightarrow>
          if esc \<and> c = CHR 0xED \<and> (0xA0 :: nat) \<le> of_char b2 \<and> (of_char b2 :: nat) \<le> 0xBF
               \<and> (0x80 :: nat) \<le> of_char b3 \<and> (of_char b3 :: nat) \<le> 0xBF
          then [CHR 0x5C, CHR ''u'', CHR ''d'',
                hex_digit ((of_char b2 - 0x80) div 4),
                hex_digit ((of_char b2 - 0x80) mod 4 * 4 + (of_char b3 - 0x80) div 16),
                hex_digit (of_char b3 - 0x80)]
               @ escape_string esc rest
          else escape_char c @ escape_string esc cs
      | _ \<Rightarrow> escape_char c @ escape_string esc cs)"

definition quote :: "engine \<Rightarrow> string \<Rightarrow> string" where
  "quote rt s = CHR 0x22 # escape_string (escapes_lone_surrogates rt) s @ [CHR 0x22]"

fun join :: "string \<Rightarrow> string list \<Rightarrow> string" where
  "join sep [] = []"
| "join sep [s] = s"
| "join sep (s # ss) = s @ sep @ join sep ss"

fun JSON_stringify :: "engine \<Rightarrow> jsval \<Rightarrow> string option" where
  "JSON_stringify rt Undefined = None"
| "JSON_stringify rt Null = Some ''null''"
| "JSON_stringify rt (Bool b) = Some (if b then ''true'' else ''false'')"
| "JSON_stringify rt (Num n) =
     Some (case n of Fin x \<Rightarrow> number_to_string rt x | _ \<Rightarrow> ''null'')"
| "JSON_stringify rt (Str s) = Some (quote rt s)"
| "JSON_stringify rt (Arr xs) =
     Some (''['' @ join '',''
        (map (\<lambda>x. case JSON_stringify rt x of None \<Rightarrow> ''null'' | Some s \<Rightarrow> s) xs) @ '']'')"
| "JSON_stringify rt (Obj kvs) =
     Some (''{'' @ join '',''
        (concat (map (\<lambda>(k, s). case s of None \<Rightarrow> [] | Some s' \<Rightarrow> [quote rt k @ '':'' @ s'])
           (own_properties (map (\<lambda>(k, v). (k, JSON_stringify rt v)) kvs)))) @ ''}'')"
| "JSON_stringify rt (ObjP kvs p) =
     Some (''{'' @ join '',''
        (concat (map (\<lambda>(k, s). case s of None \<Rightarrow> [] | Some s' \<Rightarrow> [quote rt k @ '':'' @ s'])
           (own_properties (map (\<lambda>(k, v). (k, JSON_stringify rt v)) kvs)))) @ ''}'')"

text \<open>The text of a value in a string concatenation, for the results of \<open>JSON.stringify\<close>.\<close>

definition string_or_undefined :: "string option \<Rightarrow> string" where
  "string_or_undefined r = (case r of None \<Rightarrow> ''undefined'' | Some s \<Rightarrow> s)"

section \<open>Regular expressions\<close>

text \<open>
  \<open>execute\<close> tests its script against
  \<^verbatim>\<open>/^([\/a-zA-Z0-9\-|_\.\%\?]+\.js(fl|x)?)$/\<close>.
  A pattern between \<open>^\<close> and \<open>$\<close>, with no flag, matches the whole string or
  nothing. The patterns are matched by derivatives.
\<close>

datatype regex =
    NoMatch
  | Empty
  | Class string
  | Alt regex regex
  | Seq regex regex
  | Star regex

definition OneOrMore :: "regex \<Rightarrow> regex" where
  "OneOrMore r = Seq r (Star r)"

definition Optional :: "regex \<Rightarrow> regex" where
  "Optional r = Alt r Empty"

fun nullable :: "regex \<Rightarrow> bool" where
  "nullable NoMatch = False"
| "nullable Empty = True"
| "nullable (Class cs) = False"
| "nullable (Alt r s) = (nullable r \<or> nullable s)"
| "nullable (Seq r s) = (nullable r \<and> nullable s)"
| "nullable (Star r) = True"

fun deriv :: "char \<Rightarrow> regex \<Rightarrow> regex" where
  "deriv c NoMatch = NoMatch"
| "deriv c Empty = NoMatch"
| "deriv c (Class cs) = (if c \<in> set cs then Empty else NoMatch)"
| "deriv c (Alt r s) = Alt (deriv c r) (deriv c s)"
| "deriv c (Seq r s) =
     (if nullable r then Alt (Seq (deriv c r) s) (deriv c s) else Seq (deriv c r) s)"
| "deriv c (Star r) = Seq (deriv c r) (Star r)"

fun regex_test :: "regex \<Rightarrow> string \<Rightarrow> bool" where
  "regex_test r [] = nullable r"
| "regex_test r (c # cs) = regex_test (deriv c r) cs"

text \<open>The character class \<^verbatim>\<open>[\/a-zA-Z0-9\-|_\.\%\?]\<close> and the pattern.\<close>

definition path_chars :: string where
  "path_chars = ''/abcdefghijklmnopqrstuvwxyzABCDEFGHIJKLMNOPQRSTUVWXYZ0123456789-|_.%?''"

definition script_path :: regex where
  "script_path =
     Seq (OneOrMore (Class path_chars))
       (Seq (Class ''.'') (Seq (Class ''j'') (Seq (Class ''s'')
          (Optional (Alt (Seq (Class ''f'') (Class ''l'')) (Class ''x''))))))"

section \<open>The host and the adapter\<close>

text \<open>
  The host application, the file system and the document are the state \<open>world\<close>.
  \<open>adobe_cep\<close> says whether \<open>window.__adobe_cep__\<close> is defined; the paths, the
  application name and the skin are what \<open>CSInterface\<close> answers; \<open>stylesheets\<close>
  maps a selector to the style sheet of the first element that \<open>$(selector)\<close> finds.
  The rules of a style sheet are kept as their text, \<open>selector { rule }\<close>.
\<close>

record skin_info =
  panelBackgroundColor :: color
  baseFontSize :: jsnum

record sheet =
  has_addRule :: bool
  has_insertRule :: bool
  cssRules :: "string list"

record world =
  adobe_cep :: bool
  systemPath_extension :: string
  systemPath_userData :: string
  hostEnvironment_appName :: string
  hostEnvironment_appSkinInfo :: skin_info
  files :: "string \<rightharpoonup> string"
  directories :: "string set"
  stylesheets :: "string \<rightharpoonup> sheet"
  theme_listeners :: nat

text \<open>
  Modelled from the spec: \<open>window.cep.fs\<close> is the host's file system, not part of the
  repository. The specification says of it that the settings file is at
  \<open><user-data-dir>/<namespace>/settings.json\<close>, that the directory is created on first
  use, that a file that is absent or unreadable reads as empty data, and that a write
  replaces the whole file.
\<close>

definition makedir :: "world \<Rightarrow> string \<Rightarrow> world" where
  "makedir w path = w\<lparr> directories := insert path (directories w) \<rparr>"

definition readFile_data :: "world \<Rightarrow> string \<Rightarrow> string" where
  "readFile_data w path = (case files w path of None \<Rightarrow> [] | Some d \<Rightarrow> d)"

definition writeFile :: "world \<Rightarrow> string \<Rightarrow> string \<Rightarrow> world" where
  "writeFile w path d = w\<lparr> files := (files w)(path \<mapsto> d) \<rparr>"

text \<open>The fields that the constructor sets on \<open>this\<close>.\<close>

record adapter =
  stylesheet :: "string option"
  supported :: bool
  extensionPath :: string
  settingsPath :: string
  settingsFile :: string
  settings :: jsval
  appName :: string
  isFlash :: bool

text \<open>
  \<^verbatim>\<open>
  var unserialize = function(str) {
      var result;
      if (str == "undefined") { result = undefined; }
      else {
          try { result = JSON.parse(str); }
          catch(e) { result = str; }
      }
      return result;
  };
  \<close>
\<close>

definition unserialize :: "engine \<Rightarrow> string \<Rightarrow> jsval" where
  "unserialize rt str =
     (if str = ''undefined'' then Undefined
      else (case JSON_parse rt str of Inr result \<Rightarrow> result | Inl e \<Rightarrow> Str str))"

text \<open>
  \<^verbatim>\<open>
  p.addRule = function(selector, rule) {
      var sheet = this.stylesheet.sheet;
      if (sheet.addRule) { sheet.addRule(selector, rule); }
      else if (sheet.insertRule) {
          sheet.insertRule(selector + ' { ' + rule + ' }', sheet.cssRules.length);
      }
  };
  \<close>
  Reading \<open>sheet\<close> of an element that was not found is a \<open>TypeError\<close>.
\<close>

definition addRule :: "world \<Rightarrow> adapter \<Rightarrow> string \<Rightarrow> string \<Rightarrow> error + world" where
  "addRule w this selector rule =
     (case stylesheet this of
        None \<Rightarrow> Inl TypeError
      | Some el \<Rightarrow>
          (case stylesheets w el of
             None \<Rightarrow> Inl TypeError
           | Some sh \<Rightarrow>
               if has_addRule sh \<or> has_insertRule sh then
                 Inr (w\<lparr> stylesheets := (stylesheets w)
                       (el \<mapsto> sh\<lparr> cssRules := cssRules sh @ [selector @ '' { '' @ rule @ '' }''] \<rparr>) \<rparr>)
               else Inr w))"

text \<open>
  \<^verbatim>\<open>
  p.update = function(info) {
      var color = info.panelBackgroundColor.color;
      this.addRule("body",
          "color: " + reverseColor(color) + ";"
              + "font-size:" + info.baseFontSize + "px;"
              + "background-color:"+ colorToHex(color));
  };
  \<close>
\<close>

definition update :: "engine \<Rightarrow> world \<Rightarrow> adapter \<Rightarrow> skin_info \<Rightarrow> error + world" where
  "update rt w this info =
     (let color = panelBackgroundColor info in
      addRule w this ''body''
        (''color: '' @ reverseColor rt color None @ '';''
           @ ''font-size:'' @ ToString rt (baseFontSize info) @ ''px;''
           @ ''background-color:'' @ colorToHex rt color None))"

text \<open>
  The constructor. It looks the style sheet up and throws when the host bridge is not
  there; otherwise it sets the fields, makes the settings directory, loads the settings
  (\<^verbatim>\<open>this.settings = unserialize(global.cep.fs.readFile(this.settingsFile).data) || {}\<close>),
  registers the listener of theme changes and updates the theme. \<open>init\<close> does nothing.
  The result is the adapter or the exception, and the host as the constructor leaves it.
\<close>

definition load_settings :: "engine \<Rightarrow> world \<Rightarrow> string \<Rightarrow> jsval" where
  "load_settings rt w file = js_or (unserialize rt (readFile_data w file)) (Obj [])"

definition CEPExtension ::
  "engine \<Rightarrow> world \<Rightarrow> string \<Rightarrow> string \<Rightarrow> (error + adapter) \<times> world" where
  "CEPExtension rt w stylesheet_selector namespace =
     (let el = (case stylesheets w stylesheet_selector of
                  None \<Rightarrow> None | Some sh \<Rightarrow> Some stylesheet_selector);
          is_supported = adobe_cep w
      in if \<not> is_supported then
           (Inl (Thrown ''Extension must run as a CEP Extension inside Adobe applications''), w)
         else
           (let path = systemPath_userData w @ ''/'' @ namespace;
                w1 = makedir w path;
                file = path @ ''/settings.json'';
                this = \<lparr> stylesheet = el,
                         supported = is_supported,
                         extensionPath = systemPath_extension w,
                         settingsPath = path,
                         settingsFile = file,
                         settings = load_settings rt w1 file,
                         appName = hostEnvironment_appName w,
                         isFlash = (hostEnvironment_appName w = ''FLPR'') \<rparr>;
                w2 = w1\<lparr> theme_listeners := theme_listeners w1 + 1 \<rparr>
            in (case update rt w2 this (hostEnvironment_appSkinInfo w2) of
                  Inl e \<Rightarrow> (Inl e, w2)
                | Inr w3 \<Rightarrow> (Inr this, w3))))"


text \<open>The listener of \<open>THEME_COLOR_CHANGED_EVENT\<close> that the constructor registers.\<close>

definition on_theme_changed :: "engine \<Rightarrow> world \<Rightarrow> adapter \<Rightarrow> error + world" where
  "on_theme_changed rt w this = update rt w this (hostEnvironment_appSkinInfo w)"

section \<open>Properties\<close>


fun is_object_value :: "jsval \<Rightarrow> bool" where
  "is_object_value (Arr xs) = True"
| "is_object_value (Obj kvs) = True"
| "is_object_value (ObjP kvs p) = True"
| "is_object_value v = False"

fun own_props :: "jsval \<Rightarrow> (string \<times> jsval) list" where
  "own_props (Obj kvs) = kvs"
| "own_props (ObjP kvs p) = kvs"
| "own_props v = []"




text \<open>
  The prototypes of an object are plain: objects up to \<open>Object.prototype\<close> or
  \<open>null\<close>, with no array among them. On such an object the setter of
  \<open>__proto__\<close> is reached when no object on the way has an own property of that name
  and the way ends at \<open>Object.prototype\<close>.
\<close>

fun plain_chain :: "jsval \<Rightarrow> bool" where
  "plain_chain (Obj kvs) = True"
| "plain_chain (ObjP kvs p) = (p = Null \<or> plain_chain p)"
| "plain_chain v = False"

fun proto_setter_reached :: "jsval \<Rightarrow> bool" where
  "proto_setter_reached (Obj kvs) = (map_of kvs ''__proto__'' = None)"
| "proto_setter_reached (ObjP kvs p) = (map_of kvs ''__proto__'' = None \<and> proto_setter_reached p)"
| "proto_setter_reached v = False"

definition with_own :: "jsval \<Rightarrow> (string \<times> jsval) list \<Rightarrow> jsval" where
  "with_own obj kvs = (case obj of ObjP old p \<Rightarrow> ObjP kvs p | _ \<Rightarrow> Obj kvs)"

text \<open>
  \<open>obj[name] = value\<close> in strict mode, the result being the object after it. An own
  property takes the value. Otherwise, on an object with plain prototypes, the name
  \<open>__proto__\<close> runs the setter when it is reached, and every other assignment makes a
  new own property: all that such an object inherits can be written over. An assignment
  to a property of a string, a number or a boolean throws, unless it is to
  \<open>__proto__\<close>, whose setter does nothing for them; one to a property of
  \<open>undefined\<close> or \<open>null\<close> throws.
\<close>

definition assign_plain :: "engine \<Rightarrow> jsval \<Rightarrow> string \<Rightarrow> jsval \<Rightarrow> error + jsval" where
  "assign_plain rt obj name value =
     (if map_of (own_props obj) name \<noteq> None then
        Inr (with_own obj (obj_put (own_props obj) name value))
      else if \<not> plain_chain obj then exotic_set rt obj name value
      else if name = ''__proto__'' \<and> proto_setter_reached obj then
        (if is_object_value value \<or> value = Null then Inr (ObjP (own_props obj) value)
         else Inr obj)
      else Inr (with_own obj (obj_put (own_props obj) name value)))"

definition assign_property :: "engine \<Rightarrow> jsval \<Rightarrow> string \<Rightarrow> jsval \<Rightarrow> error + jsval" where
  "assign_property rt obj name value =
     (case obj of
        Undefined \<Rightarrow> Inl TypeError
      | Null \<Rightarrow> Inl TypeError
      | Bool b \<Rightarrow> if name = ''__proto__'' then Inr obj else Inl TypeError
      | Num n \<Rightarrow> if name = ''__proto__'' then Inr obj else Inl TypeError
      | Str s \<Rightarrow> if name = ''__proto__'' then Inr obj else Inl TypeError
      | Arr xs \<Rightarrow>
          (case array_set rt xs name value of Inl e \<Rightarrow> Inl e | Inr xs' \<Rightarrow> Inr (Arr xs'))
      | Obj kvs \<Rightarrow> assign_plain rt obj name value
      | ObjP kvs p \<Rightarrow> assign_plain rt obj name value)"

text \<open>
  \<^verbatim>\<open>
  p.setProp = function(name, value) {
      this.settings[name] = value;
      global.cep.fs.writeFile(this.settingsFile, JSON.stringify(this.settings));
  };
  \<close>
  An exception of the assignment leaves the function before the file is written.
\<close>

definition setProp ::
  "engine \<Rightarrow> world \<Rightarrow> adapter \<Rightarrow> string \<Rightarrow> jsval \<Rightarrow> error + adapter \<times> world" where
  "setProp rt w this name value =
     (case assign_property rt (settings this) name value of
        Inl e \<Rightarrow> Inl e
      | Inr settings' \<Rightarrow>
          Inr (this\<lparr> settings := settings' \<rparr>,
               writeFile w (settingsFile this)
                 (string_or_undefined (JSON_stringify rt settings'))))"



section \<open>The script bridge\<close>

text \<open>
  The second argument of \<open>execute\<close> is a function or any other value, \<open>undefined\<close>
  when it is left out; the third is a function or left out. Functions are values of
  any type \<open>'f\<close>. \<open>execute\<close> returns at once; what it has asked for is its result:
  a fetch of the script file with the function that \<open>$.get\<close> will call, the evaluation
  of a script by the host with the function that \<open>evalScript\<close> will call, or the error
  it logs. The two functions are \<open>on_get\<close> and \<open>on_response\<close> below.

  \<^verbatim>\<open>
  p.execute = function(script, args, callback) {
      if (typeof args == "function") { callback = args; args = undefined; }
      if (this.supported) {
          if (/^([\/a-zA-Z0-9\-|_\.\%\?]+\.js(fl|x)?)$/.test(script)) {
              var self = this;
              $.get(script, function(data) { self.execute(data, args, callback); });
          } else {
              if (args !== undefined) {
                  script = "var args="+JSON.stringify(args)+";\n"+script;
              }
              var self = this;
              this.csInterface.evalScript(script, function(response) {
                  if (callback !== undefined) {
                      callback.call(self, unserialize(response));
                  }
              });
          }
      } else {
          Debug.error("Unable to execute command");
      }
  };
  \<close>
\<close>

datatype 'f arg = ArgFunction 'f | ArgValue jsval

datatype 'f request =
    Get string jsval "'f option"
  | EvalScript string "'f option"
  | DebugError string

datatype 'f call = Call 'f adapter jsval

definition execute :: "engine \<Rightarrow> adapter \<Rightarrow> string \<Rightarrow> 'f arg \<Rightarrow> 'f option \<Rightarrow> 'f request" where
  "execute rt this script args callback =
     (case (case args of ArgFunction f \<Rightarrow> (Undefined, Some f) | ArgValue v \<Rightarrow> (v, callback)) of
        (args, callback) \<Rightarrow>
          if supported this then
            if regex_test script_path script then Get script args callback
            else
              EvalScript
                (if args \<noteq> Undefined then
                   ''var args='' @ string_or_undefined (JSON_stringify rt args) @ '';''
                     @ [CHR 0x0A] @ script
                 else script)
                callback
          else DebugError ''Unable to execute command'')"

text \<open>\<^verbatim>\<open>function(data) { self.execute(data, args, callback); }\<close>\<close>

definition on_get :: "engine \<Rightarrow> adapter \<Rightarrow> jsval \<Rightarrow> 'f option \<Rightarrow> string \<Rightarrow> 'f request" where
  "on_get rt self args callback data = execute rt self data (ArgValue args) callback"

text \<open>
  \<^verbatim>\<open>function(response) { if (callback !== undefined) { callback.call(self, unserialize(response)); } }\<close>:
  the call it makes, if any.
\<close>

definition on_response :: "engine \<Rightarrow> adapter \<Rightarrow> 'f option \<Rightarrow> string \<Rightarrow> 'f call option" where
  "on_response rt self callback response =
     (case callback of
        None \<Rightarrow> None
      | Some f \<Rightarrow> Some (Call f self (unserialize rt response)))"

section \<open>Values for examples\<close>

text \<open>
  An engine, a host and an adapter on which the functions are evaluated in examples. The
  arithmetic of the engine is exact and it prints a number in decimal, with at most 17
  digits after the point; no example reaches its three functions for arrays and
  primitive values, and no string of an example holds a surrogate with no partner. The
  host is an application with the background colour \<open>(10, 20, 30)\<close>, one
  style sheet and no file.
\<close>

function decimal :: "nat \<Rightarrow> string" where
  "decimal n = (if n < 10 then [hex_digit n] else decimal (n div 10) @ [hex_digit (n mod 10)])"
  by pat_completeness auto
termination
  by (relation "measure (\<lambda>n. n)") auto

declare decimal.simps [simp del]

fun frac_digits :: "nat \<Rightarrow> rat \<Rightarrow> string" where
  "frac_digits 0 r = []"
| "frac_digits (Suc n) r =
     (if r = 0 then []
      else hex_digit (nat \<lfloor>r * 10\<rfloor>) # frac_digits n (r * 10 - of_int \<lfloor>r * 10\<rfloor>))"

definition example_number_to_string :: "rat \<Rightarrow> string" where
  "example_number_to_string x =
     (if x < 0 then ''-'' else []) @ decimal (nat \<lfloor>\<bar>x\<bar>\<rfloor>)
       @ (if \<bar>x\<bar> = of_int \<lfloor>\<bar>x\<bar>\<rfloor> then []
          else ''.'' @ frac_digits 17 (\<bar>x\<bar> - of_int \<lfloor>\<bar>x\<bar>\<rfloor>))"

definition example_engine :: engine where
  "example_engine =
     \<lparr> round_double = Some,
       number_to_string = example_number_to_string,
       exotic_get = (\<lambda>receiver holder name. Value Undefined),
       array_set = (\<lambda>xs name v. Inr xs),
       exotic_set = (\<lambda>obj name v. Inr obj),
       escapes_lone_surrogates = True \<rparr>"

definition example_world :: world where
  "example_world =
     \<lparr> adobe_cep = True,
       systemPath_extension = ''/ext'',
       systemPath_userData = ''/data'',
       hostEnvironment_appName = ''PHSP'',
       hostEnvironment_appSkinInfo =
         \<lparr> panelBackgroundColor = \<lparr> red = Fin 10, green = Fin 20, blue = Fin 30 \<rparr>,
           baseFontSize = Fin 10 \<rparr>,
       files = Map.empty,
       directories = {},
       stylesheets = [''#theme'' \<mapsto> \<lparr> has_addRule = False, has_insertRule = True, cssRules = [] \<rparr>],
       theme_listeners = 0 \<rparr>"

definition example_adapter :: adapter where
  "example_adapter =
     \<lparr> stylesheet = Some ''#theme'', supported = True, extensionPath = ''/ext'',
       settingsPath = ''/data/com.example.App'',
       settingsFile = ''/data/com.example.App/settings.json'',
       settings = Obj [], appName = ''PHSP'', isFlash = False \<rparr>"

text \<open>The host with one file, the settings file, of the given content.\<close>

definition world_with_settings :: "string \<Rightarrow> world" where
  "world_with_settings d = example_world\<lparr> files := [''/data/app/settings.json'' \<mapsto> d] \<rparr>"

text \<open>The host after the constructor has run on it.\<close>

definition constructed_world :: world where
  "constructed_world =
     example_world
       \<lparr> directories := {''/data/com.example.App''},
         stylesheets := [''#theme'' \<mapsto>
           \<lparr> has_addRule = False, has_insertRule = True,
             cssRules = [''body { color: #f5ebe1;font-size:10px;background-color:#0a141e }''] \<rparr>],
         theme_listeners := 1 \<rparr>"



section \<open>The specification's words\<close>

text \<open>
  The encoding of one channel as the specification words it: the delta is added when it
  is a number and left out when it is \<open>NaN\<close> or absent; the sum is clamped to
  \<open>[0,255]\<close>, rounded to the nearest integer and written as two hexadecimal digits.
\<close>

definition spec_shift :: "engine \<Rightarrow> jsnum \<Rightarrow> jsnum option \<Rightarrow> jsnum" where
  "spec_shift rt v delta =
     (case delta of
        None \<Rightarrow> v
      | Some NaN \<Rightarrow> v
      | Some d \<Rightarrow> js_add rt v d)"

fun spec_clamp :: "jsnum \<Rightarrow> jsnum" where
  "spec_clamp (Fin y) = Fin (max 0 (min 255 y))"
| "spec_clamp PosInf = Fin 255"
| "spec_clamp NegInf = Fin 0"
| "spec_clamp NaN = NaN"

fun spec_nearest :: "jsnum \<Rightarrow> nat" where
  "spec_nearest (Fin y) = nat (round y)"
| "spec_nearest n = 0"

definition spec_hex2 :: "nat \<Rightarrow> string" where
  "spec_hex2 n = [hex_digit (n div 16), hex_digit (n mod 16)]"

text \<open>The engine adds and subtracts integers of magnitude up to \<open>m\<close> exactly.\<close>

definition exact_upto :: "engine \<Rightarrow> int \<Rightarrow> bool" where
  "exact_upto rt m = (\<forall>n. \<bar>n\<bar> \<le> m \<longrightarrow> round_double rt (of_int n) = Some (of_int n))"

text \<open>A value is an object.\<close>

definition is_object :: "jsval \<Rightarrow> bool" where
  "is_object v = (case v of Obj kvs \<Rightarrow> True | _ \<Rightarrow> False)"

text \<open>
  The strings that \<open>execute\<close> takes for the path of a script file, first in the words
  of the claim (only characters of the class, and one of the three extensions at the
  end), then as amended (one character at least before the extension).
\<close>

definition extensions :: "string set" where
  "extensions = {''.js'', ''.jsfl'', ''.jsx''}"

definition ends_with :: "string \<Rightarrow> string \<Rightarrow> bool" where
  "ends_with ext s = (length ext \<le> length s \<and> drop (length s - length ext) s = ext)"

definition claimed_script_path :: "string \<Rightarrow> bool" where
  "claimed_script_path s =
     (set s \<subseteq> set path_chars
      \<and> (ends_with ''.js'' s \<or> ends_with ''.jsfl'' s \<or> ends_with ''.jsx'' s))"

definition amended_script_path :: "string \<Rightarrow> bool" where
  "amended_script_path s =
     (set s \<subseteq> set path_chars
      \<and> (ends_with ''.js'' s \<and> 3 < length s
         \<or> ends_with ''.jsfl'' s \<and> 5 < length s
         \<or> ends_with ''.jsx'' s \<and> 4 < length s))"

text \<open>
  The arguments of \<open>execute\<close> after its first statement: a function given as second
  argument is the callback and the script has no arguments. \<open>spec_inline\<close> is the text
  sent to the host for an inline script.
\<close>

definition spec_args :: "'f arg \<Rightarrow> jsval" where
  "spec_args args = (case args of ArgFunction f \<Rightarrow> Undefined | ArgValue v \<Rightarrow> v)"

definition spec_callback :: "'f arg \<Rightarrow> 'f option \<Rightarrow> 'f option" where
  "spec_callback args callback = (case args of ArgFunction f \<Rightarrow> Some f | ArgValue v \<Rightarrow> callback)"

definition spec_inline :: "engine \<Rightarrow> string \<Rightarrow> jsval \<Rightarrow> string" where
  "spec_inline rt script a =
     (if a = Undefined then script
      else ''var args='' @ string_or_undefined (JSON_stringify rt a) @ '';'' @ [CHR 0x0A] @ script)"

text \<open>
  The language of a regular expression, against which the matcher is proved: the set of
  the strings it matches.
\<close>

definition conc :: "string set \<Rightarrow> string set \<Rightarrow> string set" where
  "conc A B = {u @ v | u v. u \<in> A \<and> v \<in> B}"

inductive_set star :: "string set \<Rightarrow> string set" for A :: "string set" where
  star_empty: "[] \<in> star A"
| star_step: "u \<in> A \<Longrightarrow> v \<in> star A \<Longrightarrow> u @ v \<in> star A"

fun lang :: "regex \<Rightarrow> string set" where
  "lang NoMatch = {}"
| "lang Empty = {[]}"
| "lang (Class cs) = {[c] | c. c \<in> set cs}"
| "lang (Alt r s) = lang r \<union> lang s"
| "lang (Seq r s) = conc (lang r) (lang s)"
| "lang (Star r) = star (lang r)"

section \<open>Colour conversion: proofs\<close>

lemma floor_rat_numeral: "\<lfloor>numeral a / numeral b :: rat\<rfloor> = numeral a div numeral b"
  using floor_divide_of_int_eq [of "numeral a" "numeral b", where ?'a = rat] by simp

lemma radix16_small: "n < 16 \<Longrightarrow> radix16 n = [hex_digit n]"
  by (simp add: radix16.simps)

lemma radix16_two: "16 \<le> n \<Longrightarrow> n < 256 \<Longrightarrow> radix16 n = [hex_digit (n div 16), hex_digit n]"
  by (subst radix16.simps) (simp add: less_mult_imp_div_less radix16_small)

lemma hex_digit_mod: "hex_digit (n mod 16) = hex_digit n"
  by (simp add: hex_digit_def)

lemma hex_digit_lower: "hex_digit n \<in> set ''0123456789abcdef''"
  unfolding hex_digit_def by (rule nth_mem) simp

lemma pad_radix16:
  assumes "n < 256"
  shows "(let s = radix16 n in if length s = 1 then ''0'' @ s else s) = spec_hex2 n"
proof (cases "n < 16")
  case True
  then show ?thesis by (simp add: spec_hex2_def hex_digit_def radix16_small)
next
  case False
  with assms show ?thesis
    by (simp add: radix16_two spec_hex2_def hex_digit_mod)
qed

lemma round_pad:
  assumes "0 \<le> y" "y \<le> 255"
  shows "(let s = toString16 (Math_round (Fin y)) in if length s = 1 then ''0'' @ s else s)
           = spec_hex2 (nat (round y))"
    and "nat (round y) \<le> 255"
proof -
  have lo: "0 \<le> round y" using assms(1) by (simp add: round_def)
  have "y + 1 / 2 < 256" using assms(2) by simp
  then have "round y < 256" unfolding round_def by (simp add: floor_less_iff)
  then show hi: "nat (round y) \<le> 255" by simp
  have "toString16 (Math_round (Fin y)) = radix16 (nat (round y))"
    using lo by (simp add: round_def)
  with hi pad_radix16 [of "nat (round y)"] show
    "(let s = toString16 (Math_round (Fin y)) in if length s = 1 then ''0'' @ s else s)
           = spec_hex2 (nat (round y))"
    by simp
qed

lemma clamp_code:
  assumes "s \<noteq> NaN"
  shows "(if js_lt s (Fin 0) then Fin 0 else if js_gt s (Fin 255) then Fin 255 else s) = spec_clamp s"
  using assms by (cases s) (auto simp: js_gt_def)

lemma clamp_range:
  assumes "s \<noteq> NaN"
  obtains y where "spec_clamp s = Fin y" "0 \<le> y" "y \<le> 255"
  using assms by (cases s) auto

lemma shift_code:
  "(if \<not> isNaN delta then js_add rt v (ToNumber delta) else v) = spec_shift rt v delta"
  by (auto simp: isNaN_def ToNumber_def spec_shift_def split: option.splits jsnum.splits)

lemma number_value_not_NaN: "number_value rt x \<noteq> NaN"
  by (simp add: number_value_def split: option.splits)

lemma shift_not_NaN: "spec_shift rt (Fin x) delta \<noteq> NaN"
  by (auto simp: spec_shift_def number_value_not_NaN split: option.splits jsnum.splits)

lemma valueToHex_eq:
  "valueToHex rt (Fin x) delta = spec_hex2 (spec_nearest (spec_clamp (spec_shift rt (Fin x) delta)))"
  "spec_nearest (spec_clamp (spec_shift rt (Fin x) delta)) \<le> 255"
proof -
  let ?s = "spec_shift rt (Fin x) delta"
  obtain y where y: "spec_clamp ?s = Fin y" "0 \<le> y" "y \<le> 255"
    using clamp_range [OF shift_not_NaN] by blast
  have "valueToHex rt (Fin x) delta =
          (let s = toString16 (Math_round (spec_clamp ?s)) in if length s = 1 then ''0'' @ s else s)"
    unfolding valueToHex_def shift_code Let_def clamp_code [OF shift_not_NaN] ..
  with y round_pad [of y] show
    "valueToHex rt (Fin x) delta = spec_hex2 (spec_nearest (spec_clamp ?s))"
    by simp
  from y round_pad(2) [of y] show "spec_nearest (spec_clamp ?s) \<le> 255" by simp
qed

lemma reversed_channel:
  assumes "exact_upto rt 255" "0 \<le> n" "n \<le> 255"
  shows "Math_abs (js_sub rt (Fin 255) (Fin (of_int n))) = Fin (of_int (255 - n))"
proof -
  have "\<bar>255 - n\<bar> \<le> 255" using assms by simp
  with assms(1) have "round_double rt (of_int (255 - n)) = Some (of_int (255 - n))"
    unfolding exact_upto_def by blast
  then have "round_double rt (255 + - of_int n) = Some (of_int (255 - n))" by simp
  then show ?thesis
    using assms by (simp add: js_sub_def number_value_def del: of_int_diff)
qed

lemma hex_examples:
  "valueToHex rt (Fin 10) None = ''0a''" "valueToHex rt (Fin 20) None = ''14''"
  "valueToHex rt (Fin 30) None = ''1e''" "valueToHex rt (Fin 245) None = ''f5''"
  "valueToHex rt (Fin 235) None = ''eb''" "valueToHex rt (Fin 225) None = ''e1''"
  unfolding valueToHex_eq(1)
  by (simp_all add: spec_shift_def spec_hex2_def hex_digit_def round_def floor_rat_numeral)

section \<open>Regular expressions: the matcher is correct\<close>

lemma nullable_lang: "nullable r \<longleftrightarrow> [] \<in> lang r"
  by (induction r) (auto simp: conc_def intro: star.intros)

lemma star_cons:
  "c # s \<in> star A \<longleftrightarrow> (\<exists>u v. s = u @ v \<and> c # u \<in> A \<and> v \<in> star A)"
proof
  assume "c # s \<in> star A"
  then show "\<exists>u v. s = u @ v \<and> c # u \<in> A \<and> v \<in> star A"
  proof (induction "c # s" arbitrary: s rule: star.induct)
    case (star_step u v)
    show ?case
    proof (cases u)
      case Nil
      with star_step.hyps(4) have "v = c # s" by simp
      then show ?thesis by (rule star_step.hyps(3))
    next
      case (Cons a u')
      with star_step.hyps(1,4) have "s = u' @ v" "c # u' \<in> A" by auto
      with star_step.hyps(2) show ?thesis by blast
    qed
  qed
next
  assume "\<exists>u v. s = u @ v \<and> c # u \<in> A \<and> v \<in> star A"
  then obtain u v where "s = u @ v" "c # u \<in> A" "v \<in> star A" by blast
  then show "c # s \<in> star A"
    using star.star_step [of "c # u" A v] by simp
qed

lemma conc_cons:
  "c # s \<in> conc A B \<longleftrightarrow>
     (\<exists>u v. s = u @ v \<and> c # u \<in> A \<and> v \<in> B) \<or> ([] \<in> A \<and> c # s \<in> B)"
proof
  assume "c # s \<in> conc A B"
  then obtain u v where uv: "c # s = u @ v" "u \<in> A" "v \<in> B"
    unfolding conc_def by blast
  show "(\<exists>u v. s = u @ v \<and> c # u \<in> A \<and> v \<in> B) \<or> ([] \<in> A \<and> c # s \<in> B)"
  proof (cases u)
    case Nil
    with uv show ?thesis by simp
  next
    case (Cons a u')
    with uv have "s = u' @ v" "c # u' \<in> A" by auto
    with uv(3) show ?thesis by blast
  qed
next
  assume "(\<exists>u v. s = u @ v \<and> c # u \<in> A \<and> v \<in> B) \<or> ([] \<in> A \<and> c # s \<in> B)"
  then show "c # s \<in> conc A B"
  proof
    assume "\<exists>u v. s = u @ v \<and> c # u \<in> A \<and> v \<in> B"
    then obtain u v where "s = u @ v" "c # u \<in> A" "v \<in> B" by blast
    then have "c # s = (c # u) @ v" by simp
    with \<open>c # u \<in> A\<close> \<open>v \<in> B\<close> show ?thesis unfolding conc_def by blast
  next
    assume "[] \<in> A \<and> c # s \<in> B"
    then have "c # s = [] @ (c # s)" "[] \<in> A" "c # s \<in> B" by simp_all
    then show ?thesis unfolding conc_def by blast
  qed
qed

lemma conc_mem: "s \<in> conc A B \<longleftrightarrow> (\<exists>u v. s = u @ v \<and> u \<in> A \<and> v \<in> B)"
  unfolding conc_def by blast


lemma deriv_lang: "s \<in> lang (deriv c r) \<longleftrightarrow> c # s \<in> lang r"
proof (induction r arbitrary: s)
  case (Seq r1 r2)
  show ?case
  proof (cases "nullable r1")
    case True
    then have "s \<in> lang (deriv c (Seq r1 r2)) \<longleftrightarrow>
                 s \<in> conc (lang (deriv c r1)) (lang r2) \<or> s \<in> lang (deriv c r2)"
      by simp
    also have "\<dots> \<longleftrightarrow> (\<exists>u v. s = u @ v \<and> c # u \<in> lang r1 \<and> v \<in> lang r2)
                       \<or> ([] \<in> lang r1 \<and> c # s \<in> lang r2)"
      using True by (simp add: conc_mem Seq.IH nullable_lang)
    finally show ?thesis by (simp add: conc_cons)
  next
    case False
    then have "s \<in> lang (deriv c (Seq r1 r2)) \<longleftrightarrow> s \<in> conc (lang (deriv c r1)) (lang r2)"
      by simp
    also have "\<dots> \<longleftrightarrow> (\<exists>u v. s = u @ v \<and> c # u \<in> lang r1 \<and> v \<in> lang r2)
                       \<or> ([] \<in> lang r1 \<and> c # s \<in> lang r2)"
      using False by (simp add: conc_mem Seq.IH nullable_lang)
    finally show ?thesis by (simp add: conc_cons)
  qed
next
  case (Star r)
  have "s \<in> lang (deriv c (Star r)) \<longleftrightarrow> s \<in> conc (lang (deriv c r)) (star (lang r))"
    by simp
  also have "\<dots> \<longleftrightarrow> (\<exists>u v. s = u @ v \<and> c # u \<in> lang r \<and> v \<in> star (lang r))"
    by (simp add: conc_mem Star.IH)
  finally show ?case by (simp add: star_cons)
qed auto

lemma regex_test_lang: "regex_test r s \<longleftrightarrow> s \<in> lang r"
  by (induction s arbitrary: r) (simp_all add: nullable_lang deriv_lang)


lemma star_class: "star (lang (Class cs)) = {s. set s \<subseteq> set cs}"
proof (rule set_eqI, rule iffI)
  fix s assume "s \<in> star (lang (Class cs))"
  then show "s \<in> {s. set s \<subseteq> set cs}"
    by induction auto
next
  fix s assume "s \<in> {s. set s \<subseteq> set cs}"
  then have "set s \<subseteq> set cs" by simp
  then show "s \<in> star (lang (Class cs))"
  proof (induction s)
    case Nil
    show ?case by (rule star.star_empty)
  next
    case (Cons a s)
    then have "[a] \<in> lang (Class cs)" "s \<in> star (lang (Class cs))" by auto
    then show ?case using star.star_step [of "[a]" _ s] by simp
  qed
qed

lemma lang_one_or_more_class:
  "lang (OneOrMore (Class cs)) = {s. s \<noteq> [] \<and> set s \<subseteq> set cs}"
proof -
  have "conc (lang (Class cs)) {s. set s \<subseteq> set cs} = {s. s \<noteq> [] \<and> set s \<subseteq> set cs}"
  proof (rule set_eqI, rule iffI)
    fix s assume "s \<in> conc (lang (Class cs)) {s. set s \<subseteq> set cs}"
    then show "s \<in> {s. s \<noteq> [] \<and> set s \<subseteq> set cs}" by (auto simp: conc_def)
  next
    fix s assume "s \<in> {s. s \<noteq> [] \<and> set s \<subseteq> set cs}"
    then obtain a t where "s = a # t" "a \<in> set cs" "set t \<subseteq> set cs" by (cases s) auto
    then have "s = [a] @ t" "[a] \<in> lang (Class cs)" "t \<in> {s. set s \<subseteq> set cs}" by auto
    then show "s \<in> conc (lang (Class cs)) {s. set s \<subseteq> set cs}"
      unfolding conc_def by blast
  qed
  then show ?thesis
    unfolding OneOrMore_def lang.simps(5) lang.simps(6) star_class .
qed


lemma conc_single: "conc {u} B = (@) u ` B"
  by (auto simp: conc_def)

lemma lang_class_single: "lang (Class [c]) = {[c]}"
  by simp

lemma lang_extension:
  "lang (Seq (Class ''.'') (Seq (Class ''j'') (Seq (Class ''s'')
          (Optional (Alt (Seq (Class ''f'') (Class ''l'')) (Class ''x'')))))) = extensions"
  unfolding Optional_def lang.simps(4,5) lang_class_single conc_single lang.simps(2)
  by (simp add: extensions_def insert_commute)

lemma lang_script_path:
  "lang script_path = {pre @ ext | pre ext. pre \<noteq> [] \<and> set pre \<subseteq> set path_chars \<and> ext \<in> extensions}"
proof -
  have "lang script_path = conc (lang (OneOrMore (Class path_chars))) extensions"
    unfolding script_path_def by (subst lang.simps(5)) (simp only: lang_extension)
  then show ?thesis
    unfolding lang_one_or_more_class conc_def by blast
qed

lemma regex_test_script_path:
  "regex_test script_path s \<longleftrightarrow>
     (\<exists>pre ext. s = pre @ ext \<and> pre \<noteq> [] \<and> set pre \<subseteq> set path_chars \<and> ext \<in> extensions)"
  unfolding regex_test_lang lang_script_path by blast

lemma ends_with_append: "ends_with ext (pre @ ext)"
  by (simp add: ends_with_def)

lemma ends_with_split: "ends_with ext s \<Longrightarrow> \<exists>pre. s = pre @ ext \<and> length pre = length s - length ext"
  unfolding ends_with_def
  by (metis append_take_drop_id length_take min.absorb2 diff_le_self)

lemma extensions_chars: "ext \<in> extensions \<Longrightarrow> set ext \<subseteq> set path_chars"
  by (auto simp: extensions_def path_chars_def)

lemma regex_test_amended: "regex_test script_path s \<longleftrightarrow> amended_script_path s"
proof
  assume "regex_test script_path s"
  then obtain pre ext where p: "s = pre @ ext" "pre \<noteq> []" "set pre \<subseteq> set path_chars" "ext \<in> extensions"
    unfolding regex_test_script_path by blast
  then have "set s \<subseteq> set path_chars" using extensions_chars by auto
  moreover have "ends_with ext s" "length ext < length s"
    using p by (simp_all add: ends_with_append)
  ultimately show "amended_script_path s"
    using p(4) unfolding amended_script_path_def extensions_def by auto
next
  assume a: "amended_script_path s"
  then consider "ends_with ''.js'' s \<and> 3 < length s"
    | "ends_with ''.jsfl'' s \<and> 5 < length s"
    | "ends_with ''.jsx'' s \<and> 4 < length s"
    unfolding amended_script_path_def by blast
  then have "\<exists>ext. ext \<in> extensions \<and> ends_with ext s \<and> length ext < length s"
  proof cases
    case 1
    then show ?thesis by (intro exI [of _ "''.js''"]) (simp add: extensions_def)
  next
    case 2
    then show ?thesis by (intro exI [of _ "''.jsfl''"]) (simp add: extensions_def)
  next
    case 3
    then show ?thesis by (intro exI [of _ "''.jsx''"]) (simp add: extensions_def)
  qed
  then obtain ext where e: "ext \<in> extensions" "ends_with ext s" "length ext < length s"
    by blast
  then obtain pre where p: "s = pre @ ext" "length pre = length s - length ext"
    using ends_with_split by blast
  from p(2) e(3) have "pre \<noteq> []" by auto
  moreover have "set s \<subseteq> set path_chars"
    using a unfolding amended_script_path_def by blast
  then have "set pre \<subseteq> set path_chars"
    unfolding p(1) by simp
  ultimately show "regex_test script_path s"
    unfolding regex_test_script_path using p(1) e(1) by blast
qed

section \<open>Parsing, the store and the bridge: lemmas\<close>

lemmas lex_defs = is_ws_def is_digit_def cons_tok_def

lemma parse_nothing: "JSON_parse rt [] = Inl SyntaxError"
  by (simp add: JSON_parse_def)

lemma parse_open_brace: "JSON_parse rt ''{'' = Inl SyntaxError"
  by (simp add: JSON_parse_def lex_defs step_def)

lemma parse_undefined: "JSON_parse rt ''undefined'' = Inl SyntaxError"
  by (simp add: JSON_parse_def lex_defs)

lemma parse_true: "JSON_parse rt ''true'' = Inr (Bool True)"
  by (simp add: JSON_parse_def lex_defs step_def)

lemma parse_empty_object: "JSON_parse rt ''{}'' = Inr (Obj [])"
  by (simp add: JSON_parse_def lex_defs step_def)

lemma parse_empty_array: "JSON_parse rt ''[]'' = Inr (Arr [])"
  by (simp add: JSON_parse_def lex_defs step_def)

lemma parse_null: "JSON_parse rt ''null'' = Inr Null"
  by (simp add: JSON_parse_def lex_defs step_def)

lemma load_settings_cases:
  "load_settings rt w file =
     (let d = readFile_data w file in
      if d = ''undefined'' then Obj []
      else (case JSON_parse rt d of
              Inr v \<Rightarrow> if truthy v then v else Obj []
            | Inl e \<Rightarrow> if d = [] then Obj [] else Str d))"
  by (simp add: load_settings_def unserialize_def js_or_def Let_def split: sum.splits)
















lemma execute_supported:
  assumes "supported this"
  shows "execute rt this script args callback =
           (if regex_test script_path script
            then Get script (spec_args args) (spec_callback args callback)
            else EvalScript (spec_inline rt script (spec_args args)) (spec_callback args callback))"
  using assms
  by (cases args) (simp_all add: execute_def spec_args_def spec_callback_def spec_inline_def)

lemma not_path_alert: "\<not> regex_test script_path ''alert(1)''"
  by (simp add: script_path_def OneOrMore_def Optional_def path_chars_def)

lemma path_run_jsx: "regex_test script_path ''run.jsx''"
  by (simp add: script_path_def OneOrMore_def Optional_def path_chars_def)

lemma CEPExtension_supported:
  assumes "CEPExtension rt w sel ns = (Inr this, w')"
  shows "supported this" "adobe_cep w"
  using assms
  by (auto simp: CEPExtension_def Let_def split: if_splits sum.splits)

lemma setProp_supported:
  assumes "setProp rt w this name v = Inr (this', w')"
  shows "supported this' = supported this"
  using assms by (auto simp: setProp_def split: sum.splits)

lemma construct_example:
  "CEPExtension example_engine example_world ''#theme'' ''com.example.App''
     = (Inr example_adapter, constructed_world)"
proof -
  have ten: "example_number_to_string 10 = ''10''"
    by (simp add: example_number_to_string_def decimal.simps hex_digit_def)
  have rev: "reversed example_engine \<lparr> red = Fin 10, green = Fin 20, blue = Fin 30 \<rparr>
           = \<lparr> red = Fin 245, green = Fin 235, blue = Fin 225 \<rparr>"
    by (simp add: reversed_def js_sub_def number_value_def example_engine_def)
  have upd: "number_to_string example_engine = example_number_to_string"
    by (simp add: example_engine_def)
  show ?thesis
    by (simp add: CEPExtension_def Let_def example_world_def makedir_def load_settings_cases
        readFile_data_def parse_nothing update_def addRule_def reverseColor_def rev colorToHex_def
        hex_examples upd ten example_adapter_def constructed_world_def)
qed


section \<open>The claims\<close>

text \<open>
  Claim C1, as amended. The claim says that the settings loaded by the constructor are
  always an object, the empty one when the file is absent, unreadable or not valid JSON.
  The code assigns \<open>unserialize(data) || {}\<close>, and the field is documented as
  \<open>{Object|String|Number}\<close>: the loaded value is never falsy, but it need not be an
  object. It is the empty object when the file is absent or empty, when its content is
  the text \<open>undefined\<close>, and when its content is JSON for a falsy value; it is the
  parsed value when the content is JSON for a truthy value, so the object when the
  content is JSON for an object; and it is the content itself, a string, when the content
  is not empty and is not valid JSON.
\<close>

theorem load_settings_truthy_value:
  "truthy (load_settings rt w file)
   \<and> (files w file = None \<longrightarrow> load_settings rt w file = Obj [])
   \<and> (readFile_data w file = [] \<longrightarrow> load_settings rt w file = Obj [])
   \<and> (readFile_data w file = ''undefined'' \<longrightarrow> load_settings rt w file = Obj [])
   \<and> (\<forall>v. JSON_parse rt (readFile_data w file) = Inr v \<longrightarrow>
          load_settings rt w file = (if truthy v then v else Obj []))
   \<and> (\<forall>kvs. JSON_parse rt (readFile_data w file) = Inr (Obj kvs) \<longrightarrow>
          load_settings rt w file = Obj kvs)
   \<and> (\<forall>e. readFile_data w file \<noteq> ''undefined'' \<and> readFile_data w file \<noteq> []
            \<and> JSON_parse rt (readFile_data w file) = Inl e \<longrightarrow>
          load_settings rt w file = Str (readFile_data w file))"
proof -
  have 1: "truthy (load_settings rt w file)"
    by (simp add: load_settings_cases Let_def split: sum.splits)
  have 2: "readFile_data w file = [] \<Longrightarrow> load_settings rt w file = Obj []"
    by (simp add: load_settings_cases parse_nothing)
  have 3: "files w file = None \<Longrightarrow> load_settings rt w file = Obj []"
    using 2 by (simp add: readFile_data_def)
  have 4: "readFile_data w file = ''undefined'' \<Longrightarrow> load_settings rt w file = Obj []"
    by (simp add: load_settings_cases)
  have 5: "JSON_parse rt (readFile_data w file) = Inr v \<Longrightarrow>
             load_settings rt w file = (if truthy v then v else Obj [])" for v
    by (auto simp: load_settings_cases Let_def parse_undefined)
  have 6: "JSON_parse rt (readFile_data w file) = Inr (Obj kvs) \<Longrightarrow>
             load_settings rt w file = Obj kvs" for kvs
    using 5 [of "Obj kvs"] by simp
  have 7: "readFile_data w file \<noteq> ''undefined'' \<and> readFile_data w file \<noteq> []
             \<and> JSON_parse rt (readFile_data w file) = Inl e \<Longrightarrow>
             load_settings rt w file = Str (readFile_data w file)" for e
    by (simp add: load_settings_cases Let_def)
  show ?thesis using 1 2 3 4 5 6 7 by blast
qed

text \<open>
  The claim fails for a settings file that holds \<open>true\<close>, which is valid JSON, and for
  one that holds \<open>{\<close>, which is not: the loaded settings are the boolean and the
  string.
\<close>

theorem load_settings_counterexample:
  "JSON_parse example_engine ''true'' = Inr (Bool True)
   \<and> load_settings example_engine (world_with_settings ''true'') ''/data/app/settings.json'' = Bool True
   \<and> \<not> is_object (load_settings example_engine (world_with_settings ''true'') ''/data/app/settings.json'')
   \<and> JSON_parse example_engine ''{'' = Inl SyntaxError
   \<and> load_settings example_engine (world_with_settings ''{'') ''/data/app/settings.json'' = Str ''{''"
  by (simp add: load_settings_cases readFile_data_def world_with_settings_def parse_true
      parse_open_brace is_object_def)

theorem load_settings_truthy_value_witness:
  "files example_world ''/data/app/settings.json'' = None
   \<and> load_settings example_engine example_world ''/data/app/settings.json'' = Obj []
   \<and> readFile_data (world_with_settings ''undefined'') ''/data/app/settings.json'' = ''undefined''
   \<and> load_settings example_engine (world_with_settings ''undefined'') ''/data/app/settings.json'' = Obj []
   \<and> JSON_parse example_engine (readFile_data (world_with_settings ''null'') ''/data/app/settings.json'') = Inr Null
   \<and> load_settings example_engine (world_with_settings ''null'') ''/data/app/settings.json'' = Obj []
   \<and> JSON_parse example_engine (readFile_data (world_with_settings ''{}'') ''/data/app/settings.json'') = Inr (Obj [])
   \<and> load_settings example_engine (world_with_settings ''{}'') ''/data/app/settings.json'' = Obj []
   \<and> JSON_parse example_engine (readFile_data (world_with_settings ''{'') ''/data/app/settings.json'') = Inl SyntaxError
   \<and> load_settings example_engine (world_with_settings ''{'') ''/data/app/settings.json'' = Str ''{''"
proof -
  let ?f = "''/data/app/settings.json''"
  have a: "files example_world ?f = None" by (simp add: example_world_def)
  have b: "readFile_data (world_with_settings d) ?f = d" for d
    by (simp add: readFile_data_def world_with_settings_def)
  note t = load_settings_truthy_value [of example_engine _ ?f]
  have 1: "load_settings example_engine example_world ?f = Obj []"
    using t [of example_world] a by blast
  have 2: "load_settings example_engine (world_with_settings ''undefined'') ?f = Obj []"
    using t [of "world_with_settings ''undefined''"] b by blast
  have 3: "load_settings example_engine (world_with_settings ''null'') ?f = Obj []"
    using t [of "world_with_settings ''null''"] by (simp add: b parse_null)
  have 4: "load_settings example_engine (world_with_settings ''{}'') ?f = Obj []"
    using t [of "world_with_settings ''{}''"] by (simp add: b parse_empty_object)
  have 5: "load_settings example_engine (world_with_settings ''{'') ?f = Str ''{''"
    using t [of "world_with_settings ''{''"] by (simp add: b parse_open_brace)
  show ?thesis using a 1 2 3 4 5 by (simp add: b parse_null parse_empty_object parse_open_brace)
qed




text \<open>
  Claim C3. For every finite channel value (so for every value in \<open>[0,255]\<close>) and every
  delta that is a Number, \<open>NaN\<close> or absent, \<open>valueToHex\<close> adds the delta when it is a
  number and leaves the value unshifted when the delta is \<open>NaN\<close> or absent, clamps the
  sum to \<open>[0,255]\<close>, rounds it to the nearest integer and returns exactly two lowercase
  hexadecimal digits, padded with a zero (5 gives \<open>05\<close>); \<open>colorToHex\<close> is \<open>#\<close>
  followed by the three channel encodings.
\<close>

theorem valueToHex_shift_clamp_round_pad:
  "valueToHex rt (Fin x) delta = spec_hex2 (spec_nearest (spec_clamp (spec_shift rt (Fin x) delta)))
   \<and> spec_nearest (spec_clamp (spec_shift rt (Fin x) delta)) \<le> 255
   \<and> length (valueToHex rt (Fin x) delta) = 2
   \<and> set (valueToHex rt (Fin x) delta) \<subseteq> set ''0123456789abcdef''
   \<and> colorToHex rt c delta =
       ''#'' @ valueToHex rt (red c) delta @ valueToHex rt (green c) delta @ valueToHex rt (blue c) delta
   \<and> valueToHex rt (Fin 5) None = ''05''"
proof -
  note eq = valueToHex_eq [of rt x delta]
  have len: "length (valueToHex rt (Fin x) delta) = 2"
    unfolding eq(1) by (simp add: spec_hex2_def)
  have low: "set (valueToHex rt (Fin x) delta) \<subseteq> set ''0123456789abcdef''"
    unfolding eq(1) spec_hex2_def using hex_digit_lower by simp
  have five: "valueToHex rt (Fin 5) None = ''05''"
    unfolding valueToHex_eq(1)
    by (simp add: spec_shift_def spec_hex2_def hex_digit_def round_def floor_rat_numeral)
  show ?thesis
    using eq len low five by (simp add: colorToHex_def)
qed

text \<open>
  Claim C4. \<open>unserialize\<close> has three cases: the text \<open>undefined\<close> gives
  \<open>undefined\<close>; any other text that \<open>JSON.parse\<close> accepts gives the parsed value;
  any other text that \<open>JSON.parse\<close> rejects is returned as it is. In particular
  \<open>JSON.parse\<close> throws on \<open>{\<close> and \<open>unserialize\<close> returns the string \<open>{\<close>;
  the result of \<open>unserialize\<close> is always a value, never an exception.
\<close>

theorem unserialize_three_cases:
  "(s = ''undefined'' \<longrightarrow> unserialize rt s = Undefined)
   \<and> (s \<noteq> ''undefined'' \<longrightarrow>
        (\<forall>v. JSON_parse rt s = Inr v \<longrightarrow> unserialize rt s = v)
        \<and> (\<forall>e. JSON_parse rt s = Inl e \<longrightarrow> unserialize rt s = Str s))
   \<and> JSON_parse rt ''{'' = Inl SyntaxError
   \<and> unserialize rt ''{'' = Str ''{''
   \<and> JSON_parse rt ''undefined'' = Inl SyntaxError"
  by (simp add: unserialize_def parse_open_brace parse_undefined)

theorem unserialize_three_cases_witness:
  "unserialize example_engine ''undefined'' = Undefined
   \<and> ''true'' \<noteq> ''undefined''
   \<and> JSON_parse example_engine ''true'' = Inr (Bool True)
   \<and> unserialize example_engine ''true'' = Bool True
   \<and> ''{'' \<noteq> ''undefined''
   \<and> JSON_parse example_engine ''{'' = Inl SyntaxError
   \<and> unserialize example_engine ''{'' = Str ''{''"
proof -
  have 1: "unserialize example_engine ''undefined'' = Undefined"
    using unserialize_three_cases [of "''undefined''" example_engine] by simp
  have 2: "unserialize example_engine ''true'' = Bool True"
    using unserialize_three_cases [of "''true''" example_engine] by (simp add: parse_true)
  have 3: "unserialize example_engine ''{'' = Str ''{''"
    using unserialize_three_cases [of "''{''" example_engine] by simp
  show ?thesis using 1 2 3 by (simp add: parse_true parse_open_brace)
qed

text \<open>
  Claim C5, as amended. The claim says that \<open>execute\<close> takes its script for a file
  path exactly when the script has only characters of the class and ends in \<open>.js\<close>,
  \<open>.jsfl\<close> or \<open>.jsx\<close>. The pattern asks for one character at least before the
  extension (\<open>+\<close>): for an adapter that is supported, \<open>execute\<close> fetches the script
  and calls itself again with the text fetched exactly when the script has only
  characters of the class, ends in one of the three extensions and is longer than that
  extension; every other script is sent to the host as inline source.
\<close>

theorem execute_path_or_inline:
  assumes "supported this"
  shows "(amended_script_path script \<longrightarrow>
            execute rt this script args callback
              = Get script (spec_args args) (spec_callback args callback)
            \<and> (\<forall>data. on_get rt this (spec_args args) (spec_callback args callback) data
                  = execute rt this data (ArgValue (spec_args args)) (spec_callback args callback)))
       \<and> (\<not> amended_script_path script \<longrightarrow>
            execute rt this script args callback
              = EvalScript (spec_inline rt script (spec_args args)) (spec_callback args callback))"
  using assms by (simp add: execute_supported regex_test_amended on_get_def)

text \<open>
  The script \<open>.js\<close> has only characters of the class and ends in \<open>.js\<close>, and it is
  sent to the host as inline source.
\<close>

theorem execute_path_counterexample:
  "claimed_script_path ''.js''
   \<and> execute example_engine example_adapter ''.js'' (ArgValue Undefined) None
       = (EvalScript ''.js'' None :: nat request)"
proof -
  have c: "claimed_script_path ''.js''"
    by (simp add: claimed_script_path_def ends_with_def path_chars_def)
  have r: "\<not> regex_test script_path ''.js''"
    by (simp add: script_path_def OneOrMore_def Optional_def path_chars_def)
  have s: "supported example_adapter" by (simp add: example_adapter_def)
  have "execute example_engine example_adapter ''.js'' (ArgValue Undefined) None
          = (EvalScript ''.js'' None :: nat request)"
    unfolding execute_supported [OF s] using r
    by (simp add: spec_args_def spec_callback_def spec_inline_def del: regex_test.simps)
  with c show ?thesis by blast
qed

theorem execute_path_or_inline_witness:
  "supported example_adapter
   \<and> amended_script_path ''jsx/run.jsx''
   \<and> execute example_engine example_adapter ''jsx/run.jsx'' (ArgValue (Num (Fin 1))) (Some (7::nat))
       = Get ''jsx/run.jsx'' (Num (Fin 1)) (Some 7)
   \<and> on_get example_engine example_adapter (Num (Fin 1)) (Some (7::nat)) ''alert(args)''
       = execute example_engine example_adapter ''alert(args)'' (ArgValue (Num (Fin 1))) (Some 7)
   \<and> \<not> amended_script_path ''alert(args)''
   \<and> execute example_engine example_adapter ''alert(args)'' (ArgValue (Num (Fin 1))) (Some (7::nat))
       = EvalScript (''var args=1;'' @ [CHR 0x0A] @ ''alert(args)'') (Some 7)"
proof -
  have s: "supported example_adapter" by (simp add: example_adapter_def)
  have p: "amended_script_path ''jsx/run.jsx''"
    by (simp add: amended_script_path_def ends_with_def path_chars_def)
  have n: "\<not> amended_script_path ''alert(args)''"
    by (simp add: amended_script_path_def ends_with_def path_chars_def)
  have one: "example_number_to_string 1 = ''1''"
    by (simp add: example_number_to_string_def decimal.simps hex_digit_def)
  note t = execute_path_or_inline [OF s, where rt = example_engine and callback = "Some (7::nat)"
      and args = "ArgValue (Num (Fin 1))"]
  have 1: "execute example_engine example_adapter ''jsx/run.jsx'' (ArgValue (Num (Fin 1))) (Some (7::nat))
             = Get ''jsx/run.jsx'' (Num (Fin 1)) (Some 7)"
    using t [where script = "''jsx/run.jsx''"] p by (simp add: spec_args_def spec_callback_def)
  have 2: "on_get example_engine example_adapter (Num (Fin 1)) (Some (7::nat)) ''alert(args)''
       = execute example_engine example_adapter ''alert(args)'' (ArgValue (Num (Fin 1))) (Some 7)"
    using t [where script = "''jsx/run.jsx''"] p by (simp add: spec_args_def spec_callback_def)
  have 3: "execute example_engine example_adapter ''alert(args)'' (ArgValue (Num (Fin 1))) (Some (7::nat))
       = EvalScript (''var args=1;'' @ [CHR 0x0A] @ ''alert(args)'') (Some 7)"
    using t [where script = "''alert(args)''"] n
    by (simp add: spec_args_def spec_callback_def spec_inline_def string_or_undefined_def
        example_engine_def one)
  show ?thesis using s p n 1 2 3 by blast
qed

text \<open>
  Claim C6. For integer channels in \<open>[0,255]\<close>, the object that \<open>reverseColor\<close> builds
  has the channels \<open>|255 - c|\<close>, and building it twice gives the colour back; with no
  delta, the hexadecimal string of the colour reversed twice is the string of the colour.
  The engine is any one that subtracts integers up to 255 exactly, as doubles do.
\<close>

theorem reversed_twice_identity:
  assumes "exact_upto rt 255"
    and "0 \<le> r" "r \<le> 255" "0 \<le> g" "g \<le> 255" "0 \<le> b" "b \<le> 255"
    and "c = \<lparr> red = Fin (of_int r), green = Fin (of_int g), blue = Fin (of_int b) \<rparr>"
  shows "reversed rt c =
           \<lparr> red = Fin (of_int \<bar>255 - r\<bar>), green = Fin (of_int \<bar>255 - g\<bar>),
             blue = Fin (of_int \<bar>255 - b\<bar>) \<rparr>
       \<and> reversed rt (reversed rt c) = c
       \<and> reverseColor rt (reversed rt c) None = colorToHex rt c None"
proof -
  have 1: "reversed rt c =
             \<lparr> red = Fin (of_int (255 - r)), green = Fin (of_int (255 - g)),
               blue = Fin (of_int (255 - b)) \<rparr>"
    using assms by (simp add: reversed_def reversed_channel)
  have 2: "reversed rt (reversed rt c) = c"
    unfolding 1 using assms
    by (simp add: reversed_def reversed_channel [of rt "255 - r"] reversed_channel [of rt "255 - g"]
        reversed_channel [of rt "255 - b"] del: of_int_diff)
  show ?thesis using 1 2 assms by (simp add: reverseColor_def abs_if)
qed

theorem reversed_twice_identity_witness:
  "exact_upto example_engine 255 \<and>
   reversed example_engine \<lparr> red = Fin 10, green = Fin 20, blue = Fin 30 \<rparr>
     = \<lparr> red = Fin 245, green = Fin 235, blue = Fin 225 \<rparr> \<and>
   reversed example_engine (reversed example_engine \<lparr> red = Fin 10, green = Fin 20, blue = Fin 30 \<rparr>)
     = \<lparr> red = Fin 10, green = Fin 20, blue = Fin 30 \<rparr>"
proof -
  have e: "exact_upto example_engine 255" by (simp add: exact_upto_def example_engine_def)
  note t = reversed_twice_identity
    [OF e, of 10 20 30 "\<lparr> red = Fin 10, green = Fin 20, blue = Fin 30 \<rparr>"]
  have "reversed example_engine \<lparr> red = Fin 10, green = Fin 20, blue = Fin 30 \<rparr>
          = \<lparr> red = Fin 245, green = Fin 235, blue = Fin 225 \<rparr>"
    using t [THEN conjunct1] by simp
  moreover have
    "reversed example_engine (reversed example_engine \<lparr> red = Fin 10, green = Fin 20, blue = Fin 30 \<rparr>)
       = \<lparr> red = Fin 10, green = Fin 20, blue = Fin 30 \<rparr>"
    using t [THEN conjunct2, THEN conjunct1] by simp
  ultimately show ?thesis using e by blast
qed




text \<open>
  Claim C8. For an adapter that is supported, \<open>execute(script, f)\<close> with a function
  \<open>f\<close> takes \<open>f\<close> for the callback, whatever the third argument is, and the script
  has no arguments: an inline script is sent to the host as it is, with no
  \<open>var args=\<close> before it; a script path is fetched with \<open>undefined\<close> for the
  arguments, and the text fetched, if inline, is sent as it is; the function that
  receives the response of the host calls \<open>f\<close> with the adapter as receiver and the
  response unserialized.
\<close>

theorem execute_function_argument:
  assumes "supported this"
  shows "(\<not> regex_test script_path script \<longrightarrow>
            execute rt this script (ArgFunction f) callback = EvalScript script (Some f))
       \<and> (regex_test script_path script \<longrightarrow>
            execute rt this script (ArgFunction f) callback = Get script Undefined (Some f))
       \<and> on_get rt this Undefined (Some f) data = execute rt this data (ArgValue Undefined) (Some f)
       \<and> (\<not> regex_test script_path data \<longrightarrow>
            on_get rt this Undefined (Some f) data = EvalScript data (Some f))
       \<and> on_response rt this (Some f) response = Some (Call f this (unserialize rt response))"
  using assms
  by (simp add: execute_supported on_get_def on_response_def spec_args_def spec_callback_def
      spec_inline_def del: regex_test.simps)

theorem execute_function_argument_witness:
  "supported example_adapter
   \<and> \<not> regex_test script_path ''alert(1)''
   \<and> execute example_engine example_adapter ''alert(1)'' (ArgFunction (7::nat)) None
       = EvalScript ''alert(1)'' (Some 7)
   \<and> regex_test script_path ''run.jsx''
   \<and> execute example_engine example_adapter ''run.jsx'' (ArgFunction (7::nat)) (Some 8)
       = Get ''run.jsx'' Undefined (Some 7)
   \<and> on_get example_engine example_adapter Undefined (Some (7::nat)) ''alert(1)''
       = EvalScript ''alert(1)'' (Some 7)
   \<and> on_response example_engine example_adapter (Some (7::nat)) ''true''
       = Some (Call 7 example_adapter (Bool True))"
proof -
  have s: "supported example_adapter" by (simp add: example_adapter_def)
  note t = execute_function_argument [OF s, where rt = example_engine and f = "7::nat"]
  have 1: "execute example_engine example_adapter ''alert(1)'' (ArgFunction (7::nat)) None
       = EvalScript ''alert(1)'' (Some 7)"
    using t [where script = "''alert(1)''" and callback = None, THEN conjunct1] not_path_alert
    by blast
  have 2: "execute example_engine example_adapter ''run.jsx'' (ArgFunction (7::nat)) (Some 8)
       = Get ''run.jsx'' Undefined (Some 7)"
    using t [where script = "''run.jsx''" and callback = "Some 8", THEN conjunct2, THEN conjunct1]
      path_run_jsx
    by blast
  have 3: "on_get example_engine example_adapter Undefined (Some (7::nat)) ''alert(1)''
       = EvalScript ''alert(1)'' (Some 7)"
    using t [where data = "''alert(1)''" and script = "''x''" and callback = None,
        THEN conjunct2, THEN conjunct2, THEN conjunct2, THEN conjunct1] not_path_alert
    by blast
  have 4: "on_response example_engine example_adapter (Some (7::nat)) ''true''
       = Some (Call 7 example_adapter (Bool True))"
    using t [where response = "''true''" and script = "''x''" and callback = None and data = "''x''",
        THEN conjunct2, THEN conjunct2, THEN conjunct2, THEN conjunct2]
    by (simp add: unserialize_def parse_true)
  show ?thesis using s not_path_alert path_run_jsx 1 2 3 4 by blast
qed

text \<open>
  Claim C9. When the host bridge is not detected the constructor throws, no adapter is
  constructed and the host is left as it was. An adapter that the constructor returns has \<open>supported\<close> true, and
  \<open>setProp\<close> keeps it so; on such an adapter \<open>execute\<close> never logs the error of an
  unsupported host: it fetches the script or sends it to the host.
\<close>

theorem constructed_adapter_supported:
  "(\<not> adobe_cep w \<longrightarrow>
      CEPExtension rt w sel ns
        = (Inl (Thrown ''Extension must run as a CEP Extension inside Adobe applications''), w))
   \<and> (CEPExtension rt w sel ns = (Inr this, w') \<longrightarrow>
        adobe_cep w \<and> supported this
        \<and> execute rt this script args callback \<noteq> DebugError ''Unable to execute command''
        \<and> (execute rt this script args callback
              = Get script (spec_args args) (spec_callback args callback)
            \<or> execute rt this script args callback
              = EvalScript (spec_inline rt script (spec_args args)) (spec_callback args callback))
        \<and> (\<forall>name v this2 w2. setProp rt w' this name v = Inr (this2, w2) \<longrightarrow> supported this2))"
proof -
  have 1: "\<not> adobe_cep w \<Longrightarrow> CEPExtension rt w sel ns
        = (Inl (Thrown ''Extension must run as a CEP Extension inside Adobe applications''), w)"
    by (simp add: CEPExtension_def)
  have 2: "adobe_cep w \<and> supported this
        \<and> execute rt this script args callback \<noteq> DebugError ''Unable to execute command''
        \<and> (execute rt this script args callback
              = Get script (spec_args args) (spec_callback args callback)
            \<or> execute rt this script args callback
              = EvalScript (spec_inline rt script (spec_args args)) (spec_callback args callback))
        \<and> (\<forall>name v this2 w2. setProp rt w' this name v = Inr (this2, w2) \<longrightarrow> supported this2)"
    if c: "CEPExtension rt w sel ns = (Inr this, w')"
  proof -
    note s = CEPExtension_supported [OF c]
    have "\<forall>name v this2 w2. setProp rt w' this name v = Inr (this2, w2) \<longrightarrow> supported this2"
      using setProp_supported s(1) by blast
    then show ?thesis
      using s by (simp add: execute_supported del: regex_test.simps)
  qed
  show ?thesis using 1 2 by blast
qed

theorem constructed_adapter_supported_witness:
  "CEPExtension example_engine example_world ''#theme'' ''com.example.App''
     = (Inr example_adapter, constructed_world)
   \<and> adobe_cep example_world
   \<and> supported example_adapter
   \<and> execute example_engine example_adapter ''alert(1)'' (ArgValue Undefined) (None :: nat option)
       = EvalScript ''alert(1)'' None
   \<and> \<not> adobe_cep (example_world\<lparr> adobe_cep := False \<rparr>)
   \<and> CEPExtension example_engine (example_world\<lparr> adobe_cep := False \<rparr>) ''#theme'' ''com.example.App''
       = (Inl (Thrown ''Extension must run as a CEP Extension inside Adobe applications''),
          example_world\<lparr> adobe_cep := False \<rparr>)"
proof -
  note c = construct_example
  note t = constructed_adapter_supported
    [where rt = example_engine and w = example_world and sel = "''#theme''"
       and ns = "''com.example.App''" and this = example_adapter and w' = constructed_world
       and script = "''alert(1)''" and args = "ArgValue Undefined"
       and callback = "None :: nat option", THEN conjunct2, rule_format, OF c]
  have 1: "adobe_cep example_world" "supported example_adapter" using t by blast+
  have "execute example_engine example_adapter ''alert(1)'' (ArgValue Undefined) (None :: nat option)
       \<noteq> Get ''alert(1)'' Undefined None"
    using 1(2) not_path_alert by (simp add: execute_supported del: regex_test.simps)
  then have 2: "execute example_engine example_adapter ''alert(1)'' (ArgValue Undefined) (None :: nat option)
       = EvalScript ''alert(1)'' None"
    using t by (simp add: spec_args_def spec_callback_def spec_inline_def)
  have 3: "\<not> adobe_cep (example_world\<lparr> adobe_cep := False \<rparr>)" by simp
  have 4: "CEPExtension example_engine (example_world\<lparr> adobe_cep := False \<rparr>) ''#theme'' ''com.example.App''
       = (Inl (Thrown ''Extension must run as a CEP Extension inside Adobe applications''),
          example_world\<lparr> adobe_cep := False \<rparr>)"
    using constructed_adapter_supported
      [where rt = example_engine and w = "example_world\<lparr> adobe_cep := False \<rparr>"
         and sel = "''#theme''" and ns = "''com.example.App''", THEN conjunct1] 3
    by blast
  show ?thesis using c 1 2 3 4 by blast
qed




end
